theory Spec2Isabelle
  imports Main "HOL-Library.AList"
begin

section \<open>Entity model (utils/mockData)\<close>

text \<open>
  The three entity interfaces of the mock-data module. Field names follow the source;
  where two interfaces share a field name (\<open>id\<close>, \<open>orderId\<close>, \<open>status\<close>, \<open>carrier\<close>,
  \<open>type\<close>, \<open>name\<close>) the field carries a short prefix of its interface. The string-literal
  unions of the source are datatypes; timestamps are the ISO strings the source stores.
\<close>

datatype order_status = OPEN | SHIPPED | DELIVERED

record product =
  prod_name :: string
  dimensions :: string
  weight :: string
  quantity :: nat

record order =
  order_id :: string
  order_placed_timestamp :: string
  order_status :: order_status
  product :: product
  customer_address :: string
  warehouse_address :: string
  seller_address :: string

datatype doc_type = Invoice | Packing_List | Certificate_of_Origin | Label

datatype doc_status = Draft | Final | Approved | Rejected

record document =
  doc_id :: string
  doc_orderId :: string
  doc_name :: string
  doc_type :: doc_type
  doc_date :: string
  doc_size :: string
  doc_status :: doc_status
  doc_url :: string
  doc_carrier :: "string option"
  doc_trackingNumber :: "string option"

datatype shipment_status =
  Order_Received | Order_Picked | Order_in_Transit | Out_For_Delivery | Reached_Destination

record tracking_event =
  ev_id :: string
  ev_timestamp :: string
  ev_location :: string
  ev_status :: string
  ev_description :: string
  ev_type :: shipment_status

record shipment =
  shp_id :: string
  tracking_number :: string
  shp_orderId :: string
  origin :: string
  destination :: string
  shp_status :: shipment_status
  shp_carrier :: string
  shp_type :: string
  eta :: string
  lastUpdate :: string
  progress :: nat
  tracking :: "tracking_event list"

text \<open>
  A \<open>Record<string, T>\<close> is an association list: assigning to a key overwrites the entry
  in place when the key is present and appends it otherwise, which is what
  \<^const>\<open>AList.update\<close> does, and \<open>Object.keys\<close> enumerates the keys in list order.
\<close>

type_synonym 'a dict = "(string \<times> 'a) list"

subsection \<open>String helpers of the host language\<close>

definition digit_char :: "nat \<Rightarrow> char" where
  "digit_char d = ''0123456789'' ! d"

function string_of_nat :: "nat \<Rightarrow> string" where
  "string_of_nat n =
     (if n < 10 then [digit_char n] else string_of_nat (n div 10) @ [digit_char (n mod 10)])"
  by pat_completeness auto
termination
  by (relation "measure (\<lambda>n. n)") auto

declare string_of_nat.simps [simp del]

text \<open>Case mapping on the ASCII letters; every other character is kept.\<close>

definition toUpperCase_char :: "char \<Rightarrow> char" where
  "toUpperCase_char c =
     (case map_of (zip ''abcdefghijklmnopqrstuvwxyz'' ''ABCDEFGHIJKLMNOPQRSTUVWXYZ'') c of
        None \<Rightarrow> c | Some u \<Rightarrow> u)"

definition toLowerCase_char :: "char \<Rightarrow> char" where
  "toLowerCase_char c =
     (case map_of (zip ''ABCDEFGHIJKLMNOPQRSTUVWXYZ'' ''abcdefghijklmnopqrstuvwxyz'') c of
        None \<Rightarrow> c | Some l \<Rightarrow> l)"

definition toUpperCase :: "string \<Rightarrow> string" where
  "toUpperCase s = map toUpperCase_char s"

definition toLowerCase :: "string \<Rightarrow> string" where
  "toLowerCase s = map toLowerCase_char s"

text \<open>\<open>s.split(c)\<close>: the pieces between the separators, never an empty array.\<close>

fun split_on :: "char \<Rightarrow> string \<Rightarrow> string list" where
  "split_on c [] = [[]]"
| "split_on c (x # xs) =
     (if x = c then [] # split_on c xs
      else (case split_on c xs of [] \<Rightarrow> [[x]] | w # ws \<Rightarrow> (x # w) # ws))"

definition is_space :: "char \<Rightarrow> bool" where
  "is_space c = (c = CHR '' '' \<or> c = CHR 0x09 \<or> c = CHR 0x0A \<or> c = CHR 0x0B
                 \<or> c = CHR 0x0C \<or> c = CHR 0x0D)"

definition trim :: "string \<Rightarrow> string" where
  "trim s = rev (dropWhile is_space (rev (dropWhile is_space s)))"

text \<open>
  \<open>xs.slice(-2, -1)[0]\<close>: the last element but one; \<open>undefined\<close> (here \<open>None\<close>) when the
  array has fewer than two elements.
\<close>

definition slice_penultimate :: "'a list \<Rightarrow> 'a option" where
  "slice_penultimate xs = (if length xs < 2 then None else Some (xs ! (length xs - 2)))"


section \<open>Seed data: the module-level derivation of shipments and documents\<close>

text \<open>
  The module draws from \<open>Math.random()\<close>, \<open>uuidv4()\<close> and the clock. The model takes every
  draw as an argument. \<open>Math.floor(Math.random() * 3)\<close> has exactly three values.
\<close>

datatype draw3 = D0 | D1 | D2

fun draw3_index :: "draw3 \<Rightarrow> nat" where
  "draw3_index D0 = 0"
| "draw3_index D1 = 1"
| "draw3_index D2 = 2"

definition destinations :: "string list" where
  "destinations =
     [''John Smith, 123 Main Street, New York, NY 10001, USA'',
      ''Emily Roberts, 45 Victoria Street, Manchester, M2 3NH, United Kingdom'',
      ''James Cook, 78 Digital Avenue, Sydney, NSW 2000, Australia'']"

definition warehouseAddress :: string where
  "warehouseAddress = ''GADA RETAIL PRIVATE LIMITED, Suburb Residency Private Limited Plot No 01, Omshree Industrial Park PO, PS -, MUMBAI, 400001, INDIA''"

text \<open>
  The draws of one iteration of the past-orders loop: the ISO text of the clock reading
  moved back by the drawn number of days, the quantity draw and the destination draw.
\<close>

record order_draws =
  placed_iso :: string
  quantity_draw :: draw3
  destination_draw :: draw3

definition galaxy :: "nat \<Rightarrow> product" where
  "galaxy q = \<lparr> prod_name = ''Samsung Galaxy S23 Ultra 512GB Phantom Black'',
                dimensions = ''16.39 x 7.89 x 0.89 cm'', weight = ''234g'', quantity = q \<rparr>"

definition open_order :: "string \<Rightarrow> order" where
  "open_order now =
     \<lparr> order_id = ''ORD340001'', order_placed_timestamp = now, order_status = OPEN,
       product = galaxy 2, customer_address = destinations ! 0,
       warehouse_address = warehouseAddress, seller_address = warehouseAddress \<rparr>"

definition past_order :: "order_draws \<Rightarrow> nat \<Rightarrow> order" where
  "past_order dr i =
     \<lparr> order_id = ''ORD'' @ string_of_nat (340002 + i),
       order_placed_timestamp = placed_iso dr, order_status = DELIVERED,
       product = galaxy (draw3_index (quantity_draw dr) + 1),
       customer_address = destinations ! draw3_index (destination_draw dr),
       warehouse_address = warehouseAddress, seller_address = warehouseAddress \<rparr>"

definition MOCK_ORDERS :: "string \<Rightarrow> (nat \<Rightarrow> order_draws) \<Rightarrow> order dict" where
  "MOCK_ORDERS now gen =
     fold (\<lambda>i acc. AList.update (''ORD'' @ string_of_nat (340002 + i)) (past_order (gen i) i) acc)
       [1..<30] [(''ORD340001'', open_order now)]"

text \<open>The draws of one iteration of the shipment loop.\<close>

record shipment_draws =
  carrier_draw :: draw3
  tracking_draw :: nat
  uuid_first :: string
  uuid_second :: string

definition seed_status :: "string \<Rightarrow> order \<Rightarrow> shipment_status" where
  "seed_status orderId order =
     (if orderId = ''ORD340001'' then Order_Received
      else if order_status order = DELIVERED then Reached_Destination
      else Order_in_Transit)"

definition seed_status_text :: "string \<Rightarrow> order \<Rightarrow> string" where
  "seed_status_text orderId order =
     (if orderId = ''ORD340001'' then ''Order Received''
      else if order_status order = DELIVERED then ''Reached Destination''
      else ''Order in Transit'')"

definition seed_lastUpdate :: "string \<Rightarrow> order \<Rightarrow> string" where
  "seed_lastUpdate orderId order =
     (if orderId = ''ORD340001'' then ''Order received and processing''
      else if order_status order = DELIVERED then ''Package delivered''
      else ''Package in transit'')"

definition seed_progress :: "string \<Rightarrow> order \<Rightarrow> nat" where
  "seed_progress orderId order =
     (if orderId = ''ORD340001'' then 20
      else if order_status order = DELIVERED then 100
      else 60)"

text \<open>
  The body of the shipment loop. \<open>None\<close> is the \<open>TypeError\<close> of \<open>.trim()\<close> on \<open>undefined\<close>
  when the customer address has no last-but-one comma-separated piece. The \<open>eta\<close> is the
  placement timestamp parsed and printed again, which gives the same ISO text back.
\<close>

definition seed_shipment :: "shipment_draws \<Rightarrow> string \<Rightarrow> order \<Rightarrow> shipment option" where
  "seed_shipment dr orderId order =
     (case slice_penultimate (split_on CHR '','' (customer_address order)) of
        None \<Rightarrow> None
      | Some piece \<Rightarrow>
          Some \<lparr> shp_id = ''SHP-'' @ orderId,
                 tracking_number = ''TRK'' @ string_of_nat (tracking_draw dr),
                 shp_orderId = orderId,
                 origin = ''Mumbai, India'',
                 destination = trim piece,
                 shp_status = seed_status orderId order,
                 shp_carrier = [''DHL Express'', ''FedEx'', ''UPS''] ! draw3_index (carrier_draw dr),
                 shp_type = ''Express Air Freight'',
                 eta = order_placed_timestamp order,
                 lastUpdate = seed_lastUpdate orderId order,
                 progress = seed_progress orderId order,
                 tracking =
                   [\<lparr> ev_id = uuid_first dr, ev_timestamp = order_placed_timestamp order,
                      ev_location = ''Mumbai, India'', ev_status = ''Order Received'',
                      ev_description = ''Order has been received'', ev_type = Order_Received \<rparr>,
                    \<lparr> ev_id = uuid_second dr, ev_timestamp = order_placed_timestamp order,
                      ev_location = ''Mumbai, India'',
                      ev_status = seed_status_text orderId order,
                      ev_description = seed_lastUpdate orderId order,
                      ev_type = seed_status orderId order \<rparr>] \<rparr>)"

definition seed_shipment_step ::
  "(string \<Rightarrow> shipment_draws) \<Rightarrow> order dict \<Rightarrow> string \<Rightarrow> shipment dict option
     \<Rightarrow> shipment dict option" where
  "seed_shipment_step draws orders orderId acc =
     (case acc of
        None \<Rightarrow> None
      | Some ships \<Rightarrow>
          (case map_of orders orderId of
             None \<Rightarrow> None
           | Some order \<Rightarrow>
               (case seed_shipment (draws orderId) orderId order of
                  None \<Rightarrow> None
                | Some sh \<Rightarrow> Some (AList.update (''SHP-'' @ orderId) sh ships))))"

definition MOCK_SHIPMENTS :: "(string \<Rightarrow> shipment_draws) \<Rightarrow> order dict \<Rightarrow> shipment dict option" where
  "MOCK_SHIPMENTS draws orders =
     fold (seed_shipment_step draws orders) (map fst orders) (Some [])"

subsection \<open>Documents\<close>

fun doc_type_text :: "doc_type \<Rightarrow> string" where
  "doc_type_text Invoice = ''Invoice''"
| "doc_type_text Packing_List = ''Packing List''"
| "doc_type_text Certificate_of_Origin = ''Certificate of Origin''"
| "doc_type_text Label = ''Label''"

definition docTypes :: "doc_type list" where
  "docTypes = [Invoice, Packing_List, Certificate_of_Origin]"

definition bucket :: string where
  "bucket = ''https://aws-exportedge-dev-order-processing-bucket.s3.us-east-1.amazonaws.com/orders_docs/''"

definition standard_docId :: "string \<Rightarrow> doc_type \<Rightarrow> string" where
  "standard_docId orderId ty = ''DOC-'' @ orderId @ ''-'' @ toUpperCase (doc_type_text ty)"

definition labelId :: "string \<Rightarrow> string" where
  "labelId orderId = ''DOC-'' @ orderId @ ''-LABEL''"

definition label_url :: "string \<Rightarrow> string" where
  "label_url orderId = bucket @ orderId @ ''/'' @ orderId @ ''_label.pdf''"

definition standard_document :: "string \<Rightarrow> order \<Rightarrow> doc_type \<Rightarrow> document" where
  "standard_document orderId order ty =
     \<lparr> doc_id = standard_docId orderId ty,
       doc_orderId = orderId,
       doc_name = doc_type_text ty,
       doc_type = ty,
       doc_date = order_placed_timestamp order,
       doc_size = ''245 KB'',
       doc_status = Final,
       doc_url = (if orderId = ''ORD340001'' then bucket @ ''1example/ORD34001_invoice.pdf''
                  else bucket @ orderId @ ''/'' @ orderId @ ''_'' @ toLowerCase (doc_type_text ty)
                         @ ''.pdf''),
       doc_carrier = None,
       doc_trackingNumber = None \<rparr>"

definition seed_label :: "string \<Rightarrow> order \<Rightarrow> shipment \<Rightarrow> document" where
  "seed_label orderId order sh =
     \<lparr> doc_id = labelId orderId,
       doc_orderId = orderId,
       doc_name = ''Shipping Label'',
       doc_type = Label,
       doc_date = order_placed_timestamp order,
       doc_size = ''125 KB'',
       doc_status = Final,
       doc_url = label_url orderId,
       doc_carrier = Some (shp_carrier sh),
       doc_trackingNumber = Some (tracking_number sh) \<rparr>"

text \<open>
  The body of the document loop: the three standard documents, then the label when the
  order is DELIVERED. \<open>None\<close> is the \<open>TypeError\<close> of reading a field of a missing order or
  shipment.
\<close>

definition seed_document_step ::
  "order dict \<Rightarrow> shipment dict \<Rightarrow> string \<Rightarrow> document dict option \<Rightarrow> document dict option" where
  "seed_document_step orders ships orderId acc =
     (case acc of
        None \<Rightarrow> None
      | Some docs \<Rightarrow>
          (case map_of orders orderId of
             None \<Rightarrow> None
           | Some order \<Rightarrow>
               (let docs1 = fold (\<lambda>ty d. AList.update (standard_docId orderId ty)
                                            (standard_document orderId order ty) d) docTypes docs
                in if order_status order = DELIVERED
                   then (case map_of ships (''SHP-'' @ orderId) of
                           None \<Rightarrow> None
                         | Some sh \<Rightarrow>
                             Some (AList.update (labelId orderId) (seed_label orderId order sh) docs1))
                   else Some docs1)))"

definition MOCK_DOCUMENTS :: "order dict \<Rightarrow> shipment dict \<Rightarrow> document dict option" where
  "MOCK_DOCUMENTS orders ships =
     fold (seed_document_step orders ships) (map fst orders) (Some [])"

section \<open>The order slice and the label thunk (store/slices/orderSlice)\<close>

text \<open>
  The persisted snapshot is the object handed to \<open>JSON.stringify\<close>. An entry of it is a
  full order, or, when the module's order table has no entry for the id, the object that
  spreading \<open>undefined\<close> leaves: the status alone.
\<close>

datatype persisted_order = Full order | Status_Only order_status

record app_state =
  orders :: "order dict"
  shipments :: "shipment dict"
  documents :: "document dict"
  localStorage :: "(string \<times> persisted_order dict) list"

text \<open>
  What the thunk reads from its surroundings at one call: the clock, the value of
  \<open>Math.floor(100000 + Math.random() * 900000)\<close>, and whether the label dispatch or
  \<open>localStorage.setItem\<close> throws (a full or disabled storage does). The status
  reducer is among the sources and has no throwing path.
\<close>

record env =
  now_iso :: string
  random_draw :: nat
  label_dispatch_throws :: bool
  setItem_throws :: bool

text \<open>The reducer \<open>updateOrderStatus\<close>: a guarded write, silent when the id is unknown.\<close>

definition updateOrderStatus :: "string \<Rightarrow> order_status \<Rightarrow> order dict \<Rightarrow> order dict" where
  "updateOrderStatus orderId status os =
     (case map_of os orderId of
        None \<Rightarrow> os
      | Some order \<Rightarrow> AList.update orderId (order\<lparr>order_status := status\<rparr>) os)"

text \<open>
  Modelled from the spec: the reducer \<open>addShippingLabel\<close> of the document slice, which is
  not among the sources. The spec keys documents by document id and gives the store an
  overwriting \<open>put\<close>, so the reducer stores the document under its id.
\<close>

definition addShippingLabel :: "document \<Rightarrow> document dict \<Rightarrow> document dict" where
  "addShippingLabel d docs = AList.update (doc_id d) d docs"

text \<open>The local \<open>shipment\<close> of the thunk: a fixed pair for one id, FedEx and a draw otherwise.\<close>

definition thunk_carrier :: "string \<Rightarrow> string" where
  "thunk_carrier orderId = (if orderId = ''ORD34001'' then ''DHL Express'' else ''FedEx'')"

definition thunk_tracking_number :: "env \<Rightarrow> string \<Rightarrow> string" where
  "thunk_tracking_number e orderId =
     (if orderId = ''ORD34001'' then ''DHL7890123456''
      else ''TRK'' @ string_of_nat (random_draw e))"

definition shipping_label :: "env \<Rightarrow> string \<Rightarrow> document" where
  "shipping_label e orderId =
     \<lparr> doc_id = labelId orderId,
       doc_orderId = orderId,
       doc_name = ''Shipping Label'',
       doc_type = Label,
       doc_date = now_iso e,
       doc_size = ''125 KB'',
       doc_status = Final,
       doc_url = label_url orderId,
       doc_carrier = Some (thunk_carrier orderId),
       doc_trackingNumber = Some (thunk_tracking_number e orderId) \<rparr>"

definition updatedOrders :: "order dict \<Rightarrow> string \<Rightarrow> order_status \<Rightarrow> persisted_order dict" where
  "updatedOrders mock orderId status =
     AList.update orderId
       (case map_of mock orderId of
          None \<Rightarrow> Status_Only status
        | Some order \<Rightarrow> Full (order\<lparr>order_status := status\<rparr>))
       (map (\<lambda>(k, order). (k, Full order)) mock)"

definition dispatch_updateOrderStatus :: "string \<Rightarrow> order_status \<Rightarrow> app_state \<Rightarrow> app_state" where
  "dispatch_updateOrderStatus orderId status s =
     s\<lparr>orders := updateOrderStatus orderId status (orders s)\<rparr>"

definition dispatch_addShippingLabel :: "document \<Rightarrow> app_state \<Rightarrow> app_state" where
  "dispatch_addShippingLabel d s = s\<lparr>documents := addShippingLabel d (documents s)\<rparr>"

definition setItem :: "string \<Rightarrow> persisted_order dict \<Rightarrow> app_state \<Rightarrow> app_state" where
  "setItem key v s = s\<lparr>localStorage := AList.update key v (localStorage s)\<rparr>"

text \<open>
  The thunk, with the module's order table \<open>mock\<close> as an argument. The result is the
  boolean it resolves to and the state it leaves. An exception anywhere in the \<open>try\<close> block
  ends in the \<open>catch\<close>, which returns \<open>false\<close> and undoes nothing. The source takes
  the status as a string and casts it to the status union unchecked; the model takes a
  value of the union.
\<close>

definition updateOrderStatusAndGenerateLabel ::
  "env \<Rightarrow> order dict \<Rightarrow> string \<Rightarrow> order_status \<Rightarrow> app_state \<Rightarrow> bool \<times> app_state" where
  "updateOrderStatusAndGenerateLabel e mock orderId status s =
     (let s1 = dispatch_updateOrderStatus orderId status s in
      if label_dispatch_throws e then (False, s1)
      else
        let s2 = dispatch_addShippingLabel (shipping_label e orderId) s1 in
        if setItem_throws e then (False, s2)
        else (True, setItem ''orders'' (updatedOrders mock orderId status) s2))"

text \<open>
  The store states a subscriber sees during one call, oldest first: the state before,
  the state after the status dispatch, and the state after the label dispatch when that
  dispatch happens.
\<close>

definition observable_states :: "env \<Rightarrow> string \<Rightarrow> order_status \<Rightarrow> app_state \<Rightarrow> app_state list" where
  "observable_states e orderId status s =
     (let s1 = dispatch_updateOrderStatus orderId status s in
      if label_dispatch_throws e then [s, s1]
      else [s, s1, dispatch_addShippingLabel (shipping_label e orderId) s1])"


section \<open>Predicates of the specification\<close>

text \<open>A Label document for an order: a stored document of type Label that names the order.\<close>

definition hasLabelDocument :: "document dict \<Rightarrow> string \<Rightarrow> bool" where
  "hasLabelDocument docs orderId =
     list_ex (\<lambda>(k, d). doc_orderId d = orderId \<and> doc_type d = Label) docs"

definition label_invariant :: "app_state \<Rightarrow> bool" where
  "label_invariant s =
     list_all (\<lambda>(orderId, order). hasLabelDocument (documents s) orderId
                                   = (order_status order \<noteq> OPEN)) (orders s)"

text \<open>
  Well-formed stores: order ids are unique, and a Label document is stored under the
  label id of the order it names.
\<close>

definition store_wf :: "app_state \<Rightarrow> bool" where
  "store_wf s =
     (distinct (map fst (orders s))
      \<and> list_all (\<lambda>(k, d). doc_type d = Label \<longrightarrow> k = labelId (doc_orderId d)) (documents s))"

definition documents_of :: "document dict \<Rightarrow> string \<Rightarrow> document list" where
  "documents_of docs orderId = map snd (filter (\<lambda>(k, d). doc_orderId d = orderId) docs)"

definition shipments_of :: "shipment dict \<Rightarrow> string \<Rightarrow> shipment list" where
  "shipments_of ships orderId = map snd (filter (\<lambda>(k, sh). shp_orderId sh = orderId) ships)"

section \<open>A concrete store\<close>

text \<open>
  The open order of the module with the shipment and the documents the seed loops derive
  for it, at fixed draws.
\<close>

definition demo_now :: string where
  "demo_now = ''2025-01-15T09:30:00.000Z''"

definition demo_draws :: shipment_draws where
  "demo_draws = \<lparr> carrier_draw = D0, tracking_draw = 482913,
                   uuid_first = ''0b1f6a52-7d1c-4a8e-9c3e-2f5d8a7b6c41'',
                   uuid_second = ''5e9c2d17-3a4b-4f60-8b2a-9d1e7c6f5a03'' \<rparr>"

definition demo_shipment :: shipment where
  "demo_shipment =
     \<lparr> shp_id = ''SHP-ORD340001'', tracking_number = ''TRK482913'',
       shp_orderId = ''ORD340001'', origin = ''Mumbai, India'', destination = ''NY 10001'',
       shp_status = Order_Received, shp_carrier = ''DHL Express'',
       shp_type = ''Express Air Freight'', eta = demo_now,
       lastUpdate = ''Order received and processing'', progress = 20,
       tracking =
         [\<lparr> ev_id = uuid_first demo_draws, ev_timestamp = demo_now,
            ev_location = ''Mumbai, India'', ev_status = ''Order Received'',
            ev_description = ''Order has been received'', ev_type = Order_Received \<rparr>,
          \<lparr> ev_id = uuid_second demo_draws, ev_timestamp = demo_now,
            ev_location = ''Mumbai, India'', ev_status = ''Order Received'',
            ev_description = ''Order received and processing'', ev_type = Order_Received \<rparr>] \<rparr>"

definition demo_orders :: "order dict" where
  "demo_orders = [(''ORD340001'', open_order demo_now)]"

definition demo_state :: app_state where
  "demo_state =
     \<lparr> orders = demo_orders,
       shipments = [(''SHP-ORD340001'', demo_shipment)],
       documents = map (\<lambda>ty. (standard_docId ''ORD340001'' ty,
                                standard_document ''ORD340001'' (open_order demo_now) ty)) docTypes,
       localStorage = [] \<rparr>"

definition demo_env :: env where
  "demo_env = \<lparr> now_iso = ''2025-01-16T11:00:00.000Z'', random_draw = 751204,
                 label_dispatch_throws = False, setItem_throws = False \<rparr>"

definition retry_env :: env where
  "retry_env = \<lparr> now_iso = ''2025-01-16T11:00:05.000Z'', random_draw = 318866,
                  label_dispatch_throws = False, setItem_throws = False \<rparr>"


section \<open>The store at start-up\<close>

text \<open>
  The order slice starts from the module's order table. Modelled from the spec: the
  shipment and document slices, which are not among the sources, start from the seeded
  shipment and document tables (the spec's store is initialised once from the seed data).
  \<open>None\<close> is a module that fails to load.
\<close>

definition seed_state ::
  "string \<Rightarrow> (nat \<Rightarrow> order_draws) \<Rightarrow> (string \<Rightarrow> shipment_draws) \<Rightarrow> app_state option" where
  "seed_state now gen draws =
     (let tbl = MOCK_ORDERS now gen in
      case MOCK_SHIPMENTS draws tbl of
        None \<Rightarrow> None
      | Some ships \<Rightarrow>
          (case MOCK_DOCUMENTS tbl ships of
             None \<Rightarrow> None
           | Some docs \<Rightarrow>
               Some \<lparr> orders = tbl, shipments = ships, documents = docs, localStorage = [] \<rparr>))"


text \<open>
  What one iteration of each seed loop adds when its keys are new: the block of the
  order. The loops are shown below to produce the blocks of all orders, in order.
\<close>

definition shipment_block :: "(string \<Rightarrow> shipment_draws) \<Rightarrow> order dict \<Rightarrow> string \<Rightarrow> shipment dict" where
  "shipment_block draws tbl orderId =
     (case map_of tbl orderId of
        None \<Rightarrow> []
      | Some order \<Rightarrow>
          (case seed_shipment (draws orderId) orderId order of
             None \<Rightarrow> []
           | Some sh \<Rightarrow> [(''SHP-'' @ orderId, sh)]))"

definition document_block :: "order dict \<Rightarrow> shipment dict \<Rightarrow> string \<Rightarrow> document dict" where
  "document_block tbl ships orderId =
     (case map_of tbl orderId of
        None \<Rightarrow> []
      | Some order \<Rightarrow>
          map (\<lambda>ty. (standard_docId orderId ty, standard_document orderId order ty)) docTypes
          @ (if order_status order = DELIVERED
             then (case map_of ships (''SHP-'' @ orderId) of
                     None \<Rightarrow> []
                   | Some sh \<Rightarrow> [(labelId orderId, seed_label orderId order sh)])
             else []))"


text \<open>Reading a decimal numeral back, used to show that order ids do not collide.\<close>

definition digit_value :: "char \<Rightarrow> nat" where
  "digit_value c = of_char c - 48"

definition nat_of_string :: "string \<Rightarrow> nat" where
  "nat_of_string s = foldl (\<lambda>a c. 10 * a + digit_value c) 0 s"

definition past_key :: "nat \<Rightarrow> string" where
  "past_key i = ''ORD'' @ string_of_nat (340002 + i)"


text \<open>Draws for a second, different seeding.\<close>

definition demo_gen :: "nat \<Rightarrow> order_draws" where
  "demo_gen i = \<lparr> placed_iso = ''2025-01-02T09:30:00.000Z'', quantity_draw = D1,
                  destination_draw = D2 \<rparr>"




text \<open>The concrete store after the open order was advanced to SHIPPED.\<close>

definition demo_shipped_state :: app_state where
  "demo_shipped_state =
     snd (updateOrderStatusAndGenerateLabel demo_env demo_orders ''ORD340001'' SHIPPED demo_state)"

text \<open>Two calls in which a step throws: a full storage, and a failing label dispatch.\<close>

definition storage_full_env :: env where
  "storage_full_env = demo_env\<lparr>setItem_throws := True\<rparr>"

definition label_failure_env :: env where
  "label_failure_env = demo_env\<lparr>label_dispatch_throws := True\<rparr>"

section \<open>Facts about the reducer and the thunk\<close>

lemma thunk_fst:
  "fst (updateOrderStatusAndGenerateLabel e mock orderId status s)
     = (\<not> label_dispatch_throws e \<and> \<not> setItem_throws e)"
  by (simp add: updateOrderStatusAndGenerateLabel_def Let_def)

lemma thunk_orders:
  "orders (snd (updateOrderStatusAndGenerateLabel e mock orderId status s))
     = updateOrderStatus orderId status (orders s)"
  by (simp add: updateOrderStatusAndGenerateLabel_def Let_def dispatch_updateOrderStatus_def
      dispatch_addShippingLabel_def setItem_def)

lemma thunk_shipments:
  "shipments (snd (updateOrderStatusAndGenerateLabel e mock orderId status s)) = shipments s"
  by (simp add: updateOrderStatusAndGenerateLabel_def Let_def dispatch_updateOrderStatus_def
      dispatch_addShippingLabel_def setItem_def)

lemma thunk_documents:
  "documents (snd (updateOrderStatusAndGenerateLabel e mock orderId status s))
     = (if label_dispatch_throws e then documents s
        else AList.update (labelId orderId) (shipping_label e orderId) (documents s))"
  by (simp add: updateOrderStatusAndGenerateLabel_def Let_def dispatch_updateOrderStatus_def
      dispatch_addShippingLabel_def setItem_def addShippingLabel_def shipping_label_def)

lemma thunk_localStorage:
  "localStorage (snd (updateOrderStatusAndGenerateLabel e mock orderId status s))
     = (if label_dispatch_throws e \<or> setItem_throws e then localStorage s
        else AList.update ''orders'' (updatedOrders mock orderId status) (localStorage s))"
  by (simp add: updateOrderStatusAndGenerateLabel_def Let_def dispatch_updateOrderStatus_def
      dispatch_addShippingLabel_def setItem_def)

lemma updateOrderStatus_lookup:
  "map_of (updateOrderStatus orderId status os) k
     = (if k = orderId then map_option (\<lambda>order. order\<lparr>order_status := status\<rparr>) (map_of os k)
        else map_of os k)"
  by (simp add: updateOrderStatus_def update_conv' split: option.splits)

lemma updateOrderStatus_absent:
  "map_of os orderId = None \<Longrightarrow> updateOrderStatus orderId status os = os"
  by (simp add: updateOrderStatus_def)

lemma updateOrderStatus_twice:
  "updateOrderStatus orderId status (updateOrderStatus orderId status os)
     = updateOrderStatus orderId status os"
  by (simp add: updateOrderStatus_def update_conv' split: option.splits)

lemma updateOrderStatus_keys:
  "map fst (updateOrderStatus orderId status os) = map fst os"
proof (cases "map_of os orderId")
  case None
  then show ?thesis by (simp add: updateOrderStatus_def)
next
  case (Some order)
  then have "orderId \<in> set (map fst os)"
    by (metis map_of_eq_None_iff option.distinct(1) set_map)
  with Some show ?thesis by (simp add: updateOrderStatus_def update_keys)
qed

lemma app_state_eqI:
  fixes s t :: app_state
  assumes "orders s = orders t" "shipments s = shipments t" "documents s = documents t"
    "localStorage s = localStorage t"
  shows "s = t"
  using assms by (cases s, cases t) simp

lemma labelId_inj: "labelId a = labelId b \<longleftrightarrow> a = b"
  by (simp add: labelId_def)

lemma demo_seed_shipments:
  "MOCK_SHIPMENTS (\<lambda>_. demo_draws) demo_orders = Some (shipments demo_state)"
  by (simp add: MOCK_SHIPMENTS_def demo_orders_def seed_shipment_step_def seed_shipment_def
      open_order_def destinations_def slice_penultimate_def trim_def is_space_def demo_state_def
      demo_shipment_def demo_draws_def string_of_nat.simps digit_char_def seed_status_def
      seed_status_text_def seed_lastUpdate_def seed_progress_def)

lemma demo_seed_documents:
  "MOCK_DOCUMENTS demo_orders (shipments demo_state) = Some (documents demo_state)"
  by (simp add: MOCK_DOCUMENTS_def demo_orders_def seed_document_step_def docTypes_def
      open_order_def demo_state_def standard_docId_def toUpperCase_def toUpperCase_char_def)

lemma demo_label_ids:
  "standard_docId ''ORD340001'' Invoice \<noteq> labelId ''ORD340001''"
  "standard_docId ''ORD340001'' Packing_List \<noteq> labelId ''ORD340001''"
  "standard_docId ''ORD340001'' Certificate_of_Origin \<noteq> labelId ''ORD340001''"
  by (simp_all add: standard_docId_def labelId_def toUpperCase_def toUpperCase_char_def)

lemma demo_documents:
  "documents demo_state =
     [(standard_docId ''ORD340001'' Invoice, standard_document ''ORD340001'' (open_order demo_now) Invoice),
      (standard_docId ''ORD340001'' Packing_List, standard_document ''ORD340001'' (open_order demo_now) Packing_List),
      (standard_docId ''ORD340001'' Certificate_of_Origin, standard_document ''ORD340001'' (open_order demo_now) Certificate_of_Origin)]"
  by (simp add: demo_state_def docTypes_def)

lemma standard_document_fields [simp]:
  "doc_type (standard_document orderId order ty) = ty"
  "doc_orderId (standard_document orderId order ty) = orderId"
  "doc_status (standard_document orderId order ty) = Final"
  "doc_date (standard_document orderId order ty) = order_placed_timestamp order"
  "doc_id (standard_document orderId order ty) = standard_docId orderId ty"
  by (simp_all add: standard_document_def)

lemma shipping_label_fields [simp]:
  "doc_type (shipping_label e orderId) = Label"
  "doc_orderId (shipping_label e orderId) = orderId"
  "doc_id (shipping_label e orderId) = labelId orderId"
  "doc_carrier (shipping_label e orderId) = Some (thunk_carrier orderId)"
  "doc_trackingNumber (shipping_label e orderId) = Some (thunk_tracking_number e orderId)"
  "doc_date (shipping_label e orderId) = now_iso e"
  by (simp_all add: shipping_label_def)

lemma demo_shipped_documents:
  "documents demo_shipped_state
     = documents demo_state @ [(labelId ''ORD340001'', shipping_label demo_env ''ORD340001'')]"
  using demo_label_ids
  by (simp add: demo_shipped_state_def thunk_documents demo_documents demo_env_def)

lemma demo_tracking_numbers:
  "thunk_tracking_number demo_env ''ORD340001'' = ''TRK751204''"
  "thunk_tracking_number retry_env ''ORD340001'' = ''TRK318866''"
  by (simp_all add: thunk_tracking_number_def demo_env_def retry_env_def string_of_nat.simps
      digit_char_def)

lemma update_member: "(k, v) \<in> set (AList.update k v al)"
  by (induction al) auto

lemma update_subset: "set (AList.update k v al) \<subseteq> insert (k, v) (set al)"
  by (induction al) auto

lemma update_keeps: "p \<in> set al \<Longrightarrow> fst p \<noteq> k \<Longrightarrow> p \<in> set (AList.update k v al)"
  by (induction al) auto

lemma update_distinct_set:
  "distinct (map fst al) \<Longrightarrow> p \<in> set (AList.update k v al) \<Longrightarrow> p = (k, v) \<or> (p \<in> set al \<and> fst p \<noteq> k)"
  by (induction al) (auto split: if_splits)

lemma hasLabelDocument_iff:
  "hasLabelDocument docs orderId
     \<longleftrightarrow> (\<exists>k d. (k, d) \<in> set docs \<and> doc_orderId d = orderId \<and> doc_type d = Label)"
  by (auto simp: hasLabelDocument_def list_ex_iff)

lemma hasLabelDocument_after_label:
  assumes wf: "list_all (\<lambda>(k, d). doc_type d = Label \<longrightarrow> k = labelId (doc_orderId d)) docs"
  shows "hasLabelDocument (AList.update (labelId orderId) (shipping_label e orderId) docs) x
           \<longleftrightarrow> (x = orderId \<or> hasLabelDocument docs x)"
proof
  assume "hasLabelDocument (AList.update (labelId orderId) (shipping_label e orderId) docs) x"
  then obtain k d where kd: "(k, d) \<in> set (AList.update (labelId orderId) (shipping_label e orderId) docs)"
    and f: "doc_orderId d = x" "doc_type d = Label"
    by (auto simp: hasLabelDocument_iff)
  from kd update_subset have "(k, d) = (labelId orderId, shipping_label e orderId) \<or> (k, d) \<in> set docs"
    by fastforce
  then show "x = orderId \<or> hasLabelDocument docs x"
    using f by (auto simp: hasLabelDocument_iff)
next
  assume r: "x = orderId \<or> hasLabelDocument docs x"
  show "hasLabelDocument (AList.update (labelId orderId) (shipping_label e orderId) docs) x"
  proof (cases "x = orderId")
    case True
    have "(labelId orderId, shipping_label e orderId)
            \<in> set (AList.update (labelId orderId) (shipping_label e orderId) docs)"
      by (rule update_member)
    then have "\<exists>k d. (k, d) \<in> set (AList.update (labelId orderId) (shipping_label e orderId) docs)
                 \<and> doc_orderId d = orderId \<and> doc_type d = Label"
      by (intro exI [of _ "labelId orderId"] exI [of _ "shipping_label e orderId"]) simp
    with True show ?thesis
      by (simp add: hasLabelDocument_iff)
  next
    case False
    with r obtain k d where kd: "(k, d) \<in> set docs" and f: "doc_orderId d = x" "doc_type d = Label"
      by (auto simp: hasLabelDocument_iff)
    from wf kd f have "k = labelId x" by (auto simp: list_all_iff)
    with False have "fst (k, d) \<noteq> labelId orderId" by (simp add: labelId_inj)
    with kd have "(k, d) \<in> set (AList.update (labelId orderId) (shipping_label e orderId) docs)"
      by (rule update_keeps)
    with f show ?thesis by (auto simp: hasLabelDocument_iff)
  qed
qed

lemma updateOrderStatus_entries:
  assumes "distinct (map fst os)" and "(k, order') \<in> set (updateOrderStatus orderId status os)"
  shows "(k = orderId \<and> order_status order' = status) \<or> (k \<noteq> orderId \<and> (k, order') \<in> set os)"
proof (cases "map_of os orderId")
  case None
  then have "orderId \<notin> fst ` set os" by (simp add: map_of_eq_None_iff)
  with assms(2) None show ?thesis by (force simp: updateOrderStatus_def)
next
  case (Some order)
  with assms(2) have "(k, order') \<in> set (AList.update orderId (order\<lparr>order_status := status\<rparr>) os)"
    by (simp add: updateOrderStatus_def)
  from update_distinct_set [OF assms(1) this] show ?thesis by auto
qed

lemma demo_wf: "store_wf demo_state"
  by (simp add: store_wf_def demo_documents) (simp add: demo_state_def demo_orders_def)

lemma demo_inv: "label_invariant demo_state"
  by (simp add: label_invariant_def hasLabelDocument_def demo_documents)
     (simp add: demo_state_def demo_orders_def open_order_def)

section \<open>Facts about the seed loops\<close>

lemma digit_value_digit_char: "d < 10 \<Longrightarrow> digit_value (digit_char d) = d"
proof -
  assume "d < 10"
  then have "d \<in> {0, 1, 2, 3, 4, 5, 6, 7, 8, 9}" by auto
  then show ?thesis
    by (auto simp: digit_value_def digit_char_def)
qed

lemma nat_of_string_snoc: "nat_of_string (s @ [c]) = 10 * nat_of_string s + digit_value c"
  by (simp add: nat_of_string_def)

lemma nat_of_string_of_nat: "nat_of_string (string_of_nat n) = n"
proof (induction n rule: string_of_nat.induct)
  case (1 n)
  show ?case
  proof (cases "n < 10")
    case True
    then show ?thesis
      by (subst string_of_nat.simps) (simp add: nat_of_string_def digit_value_digit_char)
  next
    case False
    with "1" have "nat_of_string (string_of_nat (n div 10)) = n div 10" by simp
    with False show ?thesis
      by (subst string_of_nat.simps) (simp add: nat_of_string_snoc digit_value_digit_char)
  qed
qed

lemma string_of_nat_inj: "string_of_nat m = string_of_nat n \<longleftrightarrow> m = n"
  by (metis nat_of_string_of_nat)

lemma update_fresh: "k \<notin> fst ` set al \<Longrightarrow> AList.update k v al = al @ [(k, v)]"
  by (induction al) auto

lemma fold_blocks:
  fixes stp :: "'a \<Rightarrow> ('k \<times> 'v) list option \<Rightarrow> ('k \<times> 'v) list option"
    and blk :: "'a \<Rightarrow> ('k \<times> 'v) list"
  assumes step: "\<And>x acc. x \<in> set xs \<Longrightarrow> fst ` set (blk x) \<inter> fst ` set acc = {}
                   \<Longrightarrow> stp x (Some acc) = Some (acc @ blk x)"
    and dist: "distinct xs"
    and disj: "\<And>x y. x \<in> set xs \<Longrightarrow> y \<in> set xs \<Longrightarrow> x \<noteq> y
                   \<Longrightarrow> fst ` set (blk x) \<inter> fst ` set (blk y) = {}"
    and fresh: "\<And>x. x \<in> set xs \<Longrightarrow> fst ` set (blk x) \<inter> fst ` set acc = {}"
  shows "fold stp xs (Some acc) = Some (acc @ concat (map blk xs))"
  using assms
proof (induction xs arbitrary: acc)
  case Nil
  then show ?case by simp
next
  case (Cons x xs)
  have s1: "stp x (Some acc) = Some (acc @ blk x)"
    using Cons.prems(1) [of x acc] Cons.prems(4) [of x] by simp
  have "fold stp xs (Some (acc @ blk x)) = Some ((acc @ blk x) @ concat (map blk xs))"
  proof (rule Cons.IH)
    show "distinct xs" using Cons.prems(2) by simp
  next
    fix y and acc' :: "('k \<times> 'v) list" assume "y \<in> set xs" "fst ` set (blk y) \<inter> fst ` set acc' = {}"
    then show "stp y (Some acc') = Some (acc' @ blk y)"
      using Cons.prems(1) [of y acc'] by simp
  next
    fix y z assume "y \<in> set xs" "z \<in> set xs" "y \<noteq> z"
    then show "fst ` set (blk y) \<inter> fst ` set (blk z) = {}"
      using Cons.prems(3) [of y z] by simp
  next
    fix y assume y: "y \<in> set xs"
    with Cons.prems(2) have "y \<noteq> x" by auto
    with y have "fst ` set (blk y) \<inter> fst ` set (blk x) = {}"
      using Cons.prems(3) [of y x] by simp
    moreover have "fst ` set (blk y) \<inter> fst ` set acc = {}"
      using Cons.prems(4) [of y] y by simp
    ultimately show "fst ` set (blk y) \<inter> fst ` set (acc @ blk x) = {}"
      by (auto simp: image_Un)
  qed
  with s1 show ?case by simp
qed

lemma string_340001: "string_of_nat 340001 = ''340001''"
  by (simp add: string_of_nat.simps digit_char_def)

lemma past_key_inj: "past_key i = past_key j \<longleftrightarrow> i = j"
  by (simp add: past_key_def string_of_nat_inj)

lemma past_key_not_open: "past_key i \<noteq> ''ORD340001''"
proof
  assume "past_key i = ''ORD340001''"
  then have "string_of_nat (340002 + i) = string_of_nat 340001"
    by (simp add: past_key_def string_340001)
  then show False by (simp add: string_of_nat_inj)
qed

lemma fold_update_fresh:
  assumes "distinct (map k xs)" and "\<And>x. x \<in> set xs \<Longrightarrow> k x \<notin> fst ` set acc"
  shows "fold (\<lambda>x a. AList.update (k x) (v x) a) xs acc = acc @ map (\<lambda>x. (k x, v x)) xs"
  using assms
proof (induction xs arbitrary: acc)
  case Nil
  then show ?case by simp
next
  case (Cons x xs)
  from Cons.prems have fresh: "k x \<notin> fst ` set acc" by simp
  have "fold (\<lambda>x a. AList.update (k x) (v x) a) xs (acc @ [(k x, v x)])
          = (acc @ [(k x, v x)]) @ map (\<lambda>x. (k x, v x)) xs"
  proof (rule Cons.IH)
    show "distinct (map k xs)" using Cons.prems(1) by simp
  next
    fix y assume y: "y \<in> set xs"
    from Cons.prems(1) have "k x \<notin> k ` set xs" by simp
    with y have "k y \<noteq> k x" by (metis imageI)
    moreover from y Cons.prems(2) have "k y \<notin> fst ` set acc" by simp
    ultimately show "k y \<notin> fst ` set (acc @ [(k x, v x)])" by (auto simp: image_Un)
  qed
  with fresh show ?case by (simp add: update_fresh)
qed

lemma MOCK_ORDERS_closed:
  "MOCK_ORDERS now gen
     = (''ORD340001'', open_order now) # map (\<lambda>i. (past_key i, past_order (gen i) i)) [1..<30]"
proof -
  have d: "distinct (map past_key [1..<30])"
    by (simp add: distinct_map inj_on_def past_key_inj)
  have f: "past_key i \<notin> fst ` set [(''ORD340001'', open_order now)]" for i
    by (simp add: past_key_not_open)
  show ?thesis
    unfolding MOCK_ORDERS_def past_key_def [symmetric]
    using fold_update_fresh [OF d f, of "\<lambda>i. past_order (gen i) i"] by simp
qed

lemma MOCK_ORDERS_distinct: "distinct (map fst (MOCK_ORDERS now gen))"
proof -
  have "map fst (MOCK_ORDERS now gen) = ''ORD340001'' # map past_key [1..<30]"
    by (simp add: MOCK_ORDERS_closed comp_def)
  moreover have "distinct (map past_key [1..<30])"
    by (simp add: distinct_map inj_on_def past_key_inj)
  moreover have "''ORD340001'' \<notin> set (map past_key [1..<30])"
    by (auto simp: past_key_not_open past_key_not_open [symmetric])
  ultimately show ?thesis by simp
qed

lemma MOCK_ORDERS_entries:
  assumes "(orderId, order) \<in> set (MOCK_ORDERS now gen)"
  shows "(orderId = ''ORD340001'' \<and> order = open_order now)
         \<or> (orderId \<noteq> ''ORD340001'' \<and> (\<exists>i dr. order = past_order dr i))"
  using assms by (auto simp: MOCK_ORDERS_closed past_key_not_open)

lemma labelId_standard: "labelId orderId = standard_docId orderId Label"
  by (simp add: labelId_def standard_docId_def toUpperCase_def toUpperCase_char_def)

lemma last_standard_docId:
  "last (standard_docId orderId ty)
     = (case ty of Invoice \<Rightarrow> CHR ''E'' | Packing_List \<Rightarrow> CHR ''T''
        | Certificate_of_Origin \<Rightarrow> CHR ''N'' | Label \<Rightarrow> CHR ''L'')"
  by (cases ty) (simp_all add: standard_docId_def toUpperCase_def toUpperCase_char_def)

lemma standard_docId_type:
  assumes "standard_docId a ty = standard_docId b ty'"
  shows "ty = ty'"
proof -
  from assms have "last (standard_docId a ty) = last (standard_docId b ty')" by simp
  then show ?thesis
    by (cases ty; cases ty') (simp_all add: last_standard_docId)
qed

lemma standard_docId_inj: "standard_docId a ty = standard_docId b ty' \<longleftrightarrow> a = b \<and> ty = ty'"
proof
  assume eq: "standard_docId a ty = standard_docId b ty'"
  then have t: "ty = ty'" by (rule standard_docId_type)
  with eq have "a = b" by (simp add: standard_docId_def)
  with t show "a = b \<and> ty = ty'" by simp
qed simp

lemma shipment_step_fresh:
  assumes "orderId \<in> fst ` set tbl"
    and ok: "\<And>order. map_of tbl orderId = Some order
               \<Longrightarrow> seed_shipment (draws orderId) orderId order \<noteq> None"
    and fresh: "fst ` set (shipment_block draws tbl orderId) \<inter> fst ` set acc = {}"
  shows "seed_shipment_step draws tbl orderId (Some acc)
           = Some (acc @ shipment_block draws tbl orderId)"
proof -
  from assms(1) obtain order where o: "map_of tbl orderId = Some order"
    by (metis map_of_eq_None_iff not_Some_eq)
  with ok obtain sh where sh: "seed_shipment (draws orderId) orderId order = Some sh" by blast
  with o fresh have "''SHP-'' @ orderId \<notin> fst ` set acc"
    by (simp add: shipment_block_def)
  with o sh show ?thesis
    by (simp add: seed_shipment_step_def shipment_block_def update_fresh)
qed

lemma shipment_block_keys:
  "fst ` set (shipment_block draws tbl orderId) \<subseteq> {''SHP-'' @ orderId}"
  by (auto simp: shipment_block_def split: option.splits)

lemma MOCK_SHIPMENTS_closed:
  assumes dist: "distinct (map fst tbl)"
    and ok: "\<And>orderId order. (orderId, order) \<in> set tbl
               \<Longrightarrow> seed_shipment (draws orderId) orderId order \<noteq> None"
  shows "MOCK_SHIPMENTS draws tbl
           = Some (concat (map (shipment_block draws tbl) (map fst tbl)))"
proof -
  have "fold (seed_shipment_step draws tbl) (map fst tbl) (Some [])
          = Some ([] @ concat (map (shipment_block draws tbl) (map fst tbl)))"
  proof (rule fold_blocks)
    fix x and acc :: "shipment dict"
    assume x: "x \<in> set (map fst tbl)"
      and f: "fst ` set (shipment_block draws tbl x) \<inter> fst ` set acc = {}"
    show "seed_shipment_step draws tbl x (Some acc) = Some (acc @ shipment_block draws tbl x)"
    proof (rule shipment_step_fresh)
      show "x \<in> fst ` set tbl" using x by simp
      show "seed_shipment (draws x) x order \<noteq> None" if "map_of tbl x = Some order" for order
        using that ok [of x order] by (auto dest: map_of_SomeD)
      show "fst ` set (shipment_block draws tbl x) \<inter> fst ` set acc = {}" by (rule f)
    qed
  next
    show "distinct (map fst tbl)" by (rule dist)
  next
    fix x y :: string assume ne: "x \<noteq> y"
    show "fst ` set (shipment_block draws tbl x) \<inter> fst ` set (shipment_block draws tbl y) = {}"
    proof (rule ccontr)
      assume "fst ` set (shipment_block draws tbl x) \<inter> fst ` set (shipment_block draws tbl y) \<noteq> {}"
      then obtain k where "k \<in> fst ` set (shipment_block draws tbl x)"
        and "k \<in> fst ` set (shipment_block draws tbl y)" by blast
      with shipment_block_keys [of draws tbl x] shipment_block_keys [of draws tbl y]
      have "k = ''SHP-'' @ x" and "k = ''SHP-'' @ y" by blast+
      with ne show False by simp
    qed
  next
    fix x show "fst ` set (shipment_block draws tbl x) \<inter> fst ` set ([] :: shipment dict) = {}"
      by simp
  qed
  then show ?thesis by (simp add: MOCK_SHIPMENTS_def)
qed

lemma document_block_keys:
  "fst ` set (document_block tbl ships orderId) \<subseteq> range (standard_docId orderId)"
proof (cases "map_of tbl orderId")
  case None
  then show ?thesis by (simp add: document_block_def)
next
  case (Some order)
  have a: "fst ` set (map (\<lambda>ty. (standard_docId orderId ty, standard_document orderId order ty)) docTypes)
        \<subseteq> range (standard_docId orderId)"
    by auto
  have b: "labelId orderId \<in> range (standard_docId orderId)"
    unfolding labelId_standard by (rule rangeI)
  show ?thesis
  proof (cases "order_status order = DELIVERED")
    case False
    with Some a show ?thesis by (simp add: document_block_def)
  next
    case True
    show ?thesis
    proof (cases "map_of ships (''SHP-'' @ orderId)")
      case None
      with Some True a show ?thesis by (simp add: document_block_def)
    next
      case (Some sh)
      with \<open>map_of tbl orderId = Some order\<close> True a b show ?thesis
        by (simp add: document_block_def)
    qed
  qed
qed

lemma document_step_fresh:
  assumes "orderId \<in> fst ` set tbl"
    and ok: "\<And>order. map_of tbl orderId = Some order \<Longrightarrow> order_status order = DELIVERED
               \<Longrightarrow> map_of ships (''SHP-'' @ orderId) \<noteq> None"
    and fresh: "fst ` set (document_block tbl ships orderId) \<inter> fst ` set acc = {}"
  shows "seed_document_step tbl ships orderId (Some acc)
           = Some (acc @ document_block tbl ships orderId)"
proof -
  from assms(1) obtain order where o: "map_of tbl orderId = Some order"
    by (metis map_of_eq_None_iff not_Some_eq)
  let ?std = "map (\<lambda>ty. (standard_docId orderId ty, standard_document orderId order ty)) docTypes"
  have d: "distinct (map (standard_docId orderId) docTypes)"
    by (simp add: docTypes_def standard_docId_inj)
  have std_fresh: "fold (\<lambda>ty d. AList.update (standard_docId orderId ty)
                            (standard_document orderId order ty) d) docTypes acc = acc @ ?std"
    if sub: "set ?std \<subseteq> set (document_block tbl ships orderId)"
  proof (rule fold_update_fresh [OF d])
    fix ty assume "ty \<in> set docTypes"
    then have "(standard_docId orderId ty, standard_document orderId order ty) \<in> set ?std"
      by auto
    with sub have "(standard_docId orderId ty, standard_document orderId order ty)
                 \<in> set (document_block tbl ships orderId)"
      by blast
    then have "standard_docId orderId ty \<in> fst ` set (document_block tbl ships orderId)"
      by force
    with fresh show "standard_docId orderId ty \<notin> fst ` set acc" by blast
  qed
  show ?thesis
  proof (cases "order_status order = DELIVERED")
    case False
    with o have blk: "document_block tbl ships orderId = ?std"
      by (simp add: document_block_def)
    then have "set ?std \<subseteq> set (document_block tbl ships orderId)" by simp
    from std_fresh [OF this] o False blk show ?thesis
      by (simp add: seed_document_step_def)
  next
    case True
    with ok o obtain sh where sh: "map_of ships (''SHP-'' @ orderId) = Some sh" by blast
    with o True have blk: "document_block tbl ships orderId
        = ?std @ [(labelId orderId, seed_label orderId order sh)]"
      by (simp add: document_block_def)
    then have sub: "set ?std \<subseteq> set (document_block tbl ships orderId)" by auto
    from blk have "labelId orderId \<in> fst ` set (document_block tbl ships orderId)"
      by force
    with fresh have "labelId orderId \<notin> fst ` set acc" by blast
    moreover have "labelId orderId \<notin> fst ` set ?std"
      by (auto simp: labelId_standard standard_docId_inj docTypes_def)
    ultimately have "labelId orderId \<notin> fst ` set (acc @ ?std)" by (auto simp: image_Un)
    then have "AList.update (labelId orderId) (seed_label orderId order sh) (acc @ ?std)
                 = (acc @ ?std) @ [(labelId orderId, seed_label orderId order sh)]"
      by (rule update_fresh)
    with std_fresh [OF sub] o True sh blk show ?thesis
      by (simp add: seed_document_step_def)
  qed
qed

lemma MOCK_DOCUMENTS_closed:
  assumes dist: "distinct (map fst tbl)"
    and ok: "\<And>orderId order. (orderId, order) \<in> set tbl \<Longrightarrow> order_status order = DELIVERED
               \<Longrightarrow> map_of ships (''SHP-'' @ orderId) \<noteq> None"
  shows "MOCK_DOCUMENTS tbl ships
           = Some (concat (map (document_block tbl ships) (map fst tbl)))"
proof -
  have "fold (seed_document_step tbl ships) (map fst tbl) (Some [])
          = Some ([] @ concat (map (document_block tbl ships) (map fst tbl)))"
  proof (rule fold_blocks)
    fix x and acc :: "document dict"
    assume x: "x \<in> set (map fst tbl)"
      and f: "fst ` set (document_block tbl ships x) \<inter> fst ` set acc = {}"
    show "seed_document_step tbl ships x (Some acc) = Some (acc @ document_block tbl ships x)"
    proof (rule document_step_fresh)
      show "x \<in> fst ` set tbl" using x by simp
      show "map_of ships (''SHP-'' @ x) \<noteq> None"
        if "map_of tbl x = Some order" "order_status order = DELIVERED" for order
        using that ok [of x order] by (auto dest: map_of_SomeD)
      show "fst ` set (document_block tbl ships x) \<inter> fst ` set acc = {}" by (rule f)
    qed
  next
    show "distinct (map fst tbl)" by (rule dist)
  next
    fix x y :: string assume ne: "x \<noteq> y"
    show "fst ` set (document_block tbl ships x) \<inter> fst ` set (document_block tbl ships y) = {}"
    proof (rule ccontr)
      assume "fst ` set (document_block tbl ships x) \<inter> fst ` set (document_block tbl ships y) \<noteq> {}"
      then obtain k where "k \<in> fst ` set (document_block tbl ships x)"
        and "k \<in> fst ` set (document_block tbl ships y)" by blast
      with document_block_keys [of tbl ships x] document_block_keys [of tbl ships y]
      obtain ty ty' where "k = standard_docId x ty" and "k = standard_docId y ty'" by blast
      with ne show False by (simp add: standard_docId_inj)
    qed
  next
    fix x show "fst ` set (document_block tbl ships x) \<inter> fst ` set ([] :: document dict) = {}"
      by simp
  qed
  then show ?thesis by (simp add: MOCK_DOCUMENTS_def)
qed

lemma filter_concat_blocks:
  assumes "distinct xs" and "x \<in> set xs"
    and "\<And>y p. y \<in> set xs \<Longrightarrow> p \<in> set (blk y) \<Longrightarrow> P p \<longleftrightarrow> y = x"
  shows "filter P (concat (map blk xs)) = blk x"
  using assms
proof (induction xs)
  case Nil
  then show ?case by simp
next
  case (Cons y ys)
  show ?case
  proof (cases "y = x")
    case True
    with Cons.prems(1) have nx: "x \<notin> set ys" by simp
    have "filter P (blk y) = blk y"
      using Cons.prems(3) [of y] True by (simp add: filter_id_conv)
    moreover have "filter P (concat (map blk ys)) = []"
      using Cons.prems(3) nx by (fastforce simp: filter_empty_conv)
    ultimately show ?thesis using True by simp
  next
    case False
    with Cons.prems(2) have "x \<in> set ys" by simp
    moreover have "filter P (blk y) = []"
      using Cons.prems(3) [of y] False by (simp add: filter_empty_conv)
    ultimately show ?thesis
      using Cons.IH Cons.prems by simp
  qed
qed

lemma destination_pieces:
  "slice_penultimate (split_on CHR '','' (destinations ! draw3_index d)) \<noteq> None"
  by (cases d) (simp_all add: destinations_def slice_penultimate_def)

lemma seed_shipment_fields:
  assumes "seed_shipment dr orderId order = Some sh"
  shows "shp_orderId sh = orderId" "shp_status sh = seed_status orderId order"
    "progress sh = seed_progress orderId order" "length (tracking sh) = 2"
    "shp_id sh = ''SHP-'' @ orderId"
  using assms by (auto simp: seed_shipment_def split: option.splits)

lemma MOCK_ORDERS_seed_shipment:
  assumes "(orderId, order) \<in> set (MOCK_ORDERS now gen)"
  shows "seed_shipment dr orderId order \<noteq> None"
proof -
  from assms have "\<exists>d. customer_address order = destinations ! draw3_index d"
  proof (auto simp: MOCK_ORDERS_closed)
    show "\<exists>d. customer_address (open_order now) = destinations ! draw3_index d"
      by (rule exI [of _ D0]) (simp add: open_order_def)
  next
    fix i show "\<exists>d. customer_address (past_order (gen i) i) = destinations ! draw3_index d"
      by (rule exI [of _ "destination_draw (gen i)"]) (simp add: past_order_def)
  qed
  then obtain d where "customer_address order = destinations ! draw3_index d" ..
  with destination_pieces [of d] show ?thesis
    by (auto simp: seed_shipment_def split: option.splits)
qed

lemma MOCK_ORDERS_status:
  assumes "(orderId, order) \<in> set (MOCK_ORDERS now gen)"
  shows "(orderId = ''ORD340001'' \<and> order = open_order now \<and> order_status order = OPEN)
         \<or> (orderId \<noteq> ''ORD340001'' \<and> order_status order = DELIVERED)"
  using assms
  by (auto simp: MOCK_ORDERS_closed past_key_not_open open_order_def past_order_def)

lemma block_lookup:
  assumes "distinct (map fst tbl)" and "(orderId, order) \<in> set tbl"
  shows "map_of tbl orderId = Some order"
  using assms by simp

lemma shipment_block_entry:
  assumes "distinct (map fst tbl)" and "(orderId, order) \<in> set tbl"
    and "seed_shipment (draws orderId) orderId order = Some sh"
  shows "shipment_block draws tbl orderId = [(''SHP-'' @ orderId, sh)]"
  using assms by (simp add: shipment_block_def)

lemma shipment_block_owner:
  assumes "p \<in> set (shipment_block draws tbl y)"
  shows "shp_orderId (snd p) = y"
  using assms
  by (auto simp: shipment_block_def seed_shipment_fields split: option.splits)

lemma document_block_owner:
  assumes "p \<in> set (document_block tbl ships y)"
  shows "doc_orderId (snd p) = y"
proof (cases "map_of tbl y")
  case None
  with assms show ?thesis by (simp add: document_block_def)
next
  case (Some order)
  show ?thesis
  proof (cases "order_status order = DELIVERED")
    case False
    with Some assms show ?thesis by (auto simp: document_block_def)
  next
    case True
    show ?thesis
    proof (cases "map_of ships (''SHP-'' @ y)")
      case None
      with Some True assms show ?thesis by (auto simp: document_block_def)
    next
      case (Some sh)
      with \<open>map_of tbl y = Some order\<close> True assms show ?thesis
        by (auto simp: document_block_def seed_label_def)
    qed
  qed
qed

lemma shipments_of_closed:
  assumes dist: "distinct (map fst tbl)" and mem: "(orderId, order) \<in> set tbl"
    and sh: "seed_shipment (draws orderId) orderId order = Some sh"
  shows "shipments_of (concat (map (shipment_block draws tbl) (map fst tbl))) orderId = [sh]"
proof -
  have "filter (\<lambda>(k, s). shp_orderId s = orderId)
          (concat (map (shipment_block draws tbl) (map fst tbl)))
        = shipment_block draws tbl orderId"
  proof (rule filter_concat_blocks)
    show "distinct (map fst tbl)" by (rule dist)
    show "orderId \<in> set (map fst tbl)" using mem by force
  next
    fix y p assume "p \<in> set (shipment_block draws tbl y)"
    then have "shp_orderId (snd p) = y" by (rule shipment_block_owner)
    then show "(case p of (k, s) \<Rightarrow> shp_orderId s = orderId) \<longleftrightarrow> y = orderId"
      by (cases p) auto
  qed
  with shipment_block_entry [where draws = draws, OF dist mem sh] show ?thesis
    by (simp add: shipments_of_def)
qed

lemma documents_of_closed:
  assumes dist: "distinct (map fst tbl)" and mem: "(orderId, order) \<in> set tbl"
  shows "documents_of (concat (map (document_block tbl ships) (map fst tbl))) orderId
           = map snd (document_block tbl ships orderId)"
proof -
  have "filter (\<lambda>(k, d). doc_orderId d = orderId)
          (concat (map (document_block tbl ships) (map fst tbl)))
        = document_block tbl ships orderId"
  proof (rule filter_concat_blocks)
    show "distinct (map fst tbl)" by (rule dist)
    show "orderId \<in> set (map fst tbl)" using mem by force
  next
    fix y p assume "p \<in> set (document_block tbl ships y)"
    then have "doc_orderId (snd p) = y" by (rule document_block_owner)
    then show "(case p of (k, d) \<Rightarrow> doc_orderId d = orderId) \<longleftrightarrow> y = orderId"
      by (cases p) auto
  qed
  then show ?thesis by (simp add: documents_of_def)
qed

lemma hasLabelDocument_documents_of:
  "hasLabelDocument docs orderId \<longleftrightarrow> list_ex (\<lambda>d. doc_type d = Label) (documents_of docs orderId)"
  by (auto simp: hasLabelDocument_def documents_of_def list_ex_iff)

lemma shipments_closed_lookup:
  assumes dist: "distinct (map fst tbl)" and mem: "(orderId, order) \<in> set tbl"
    and sh: "seed_shipment (draws orderId) orderId order = Some sh"
  shows "map_of (concat (map (shipment_block draws tbl) (map fst tbl))) (''SHP-'' @ orderId) \<noteq> None"
proof -
  from mem have "orderId \<in> set (map fst tbl)" by force
  moreover have "(''SHP-'' @ orderId, sh) \<in> set (shipment_block draws tbl orderId)"
    using shipment_block_entry [where draws = draws, OF dist mem sh] by simp
  ultimately
  have "(''SHP-'' @ orderId, sh) \<in> set (concat (map (shipment_block draws tbl) (map fst tbl)))"
    unfolding set_concat by (intro UN_I [of "shipment_block draws tbl orderId"]) auto
  then have "''SHP-'' @ orderId \<in> fst ` set (concat (map (shipment_block draws tbl) (map fst tbl)))"
    by force
  then show ?thesis by (simp add: map_of_eq_None_iff)
qed

lemma seed_state_closed:
  "seed_state now gen draws
     = Some \<lparr> orders = MOCK_ORDERS now gen,
              shipments = concat (map (shipment_block draws (MOCK_ORDERS now gen))
                                   (map fst (MOCK_ORDERS now gen))),
              documents = concat (map (document_block (MOCK_ORDERS now gen)
                                        (concat (map (shipment_block draws (MOCK_ORDERS now gen))
                                                   (map fst (MOCK_ORDERS now gen)))))
                                   (map fst (MOCK_ORDERS now gen))),
              localStorage = [] \<rparr>"
proof -
  let ?tbl = "MOCK_ORDERS now gen"
  let ?ships = "concat (map (shipment_block draws ?tbl) (map fst ?tbl))"
  have dist: "distinct (map fst ?tbl)" by (rule MOCK_ORDERS_distinct)
  have ok: "seed_shipment (draws orderId) orderId order \<noteq> None"
    if "(orderId, order) \<in> set ?tbl" for orderId order
    using that by (rule MOCK_ORDERS_seed_shipment)
  have ships: "MOCK_SHIPMENTS draws ?tbl = Some ?ships"
    using dist ok by (rule MOCK_SHIPMENTS_closed)
  have "MOCK_DOCUMENTS ?tbl ?ships = Some (concat (map (document_block ?tbl ?ships) (map fst ?tbl)))"
  proof (rule MOCK_DOCUMENTS_closed [OF dist])
    fix orderId order assume mem: "(orderId, order) \<in> set ?tbl"
    with ok obtain sh where "seed_shipment (draws orderId) orderId order = Some sh" by blast
    with dist mem show "map_of ?ships (''SHP-'' @ orderId) \<noteq> None"
      by (rule shipments_closed_lookup)
  qed
  with ships show ?thesis by (simp add: seed_state_def Let_def)
qed















lemma document_block_wf:
  assumes "p \<in> set (document_block tbl ships y)" and "doc_type (snd p) = Label"
  shows "fst p = labelId (doc_orderId (snd p))"
proof (cases "map_of tbl y")
  case None
  with assms show ?thesis by (simp add: document_block_def)
next
  case (Some order)
  have std: "doc_type (snd q) \<noteq> Label"
    if "q \<in> set (map (\<lambda>ty. (standard_docId y ty, standard_document y order ty)) docTypes)" for q
    using that by (auto simp: docTypes_def)
  show ?thesis
  proof (cases "order_status order = DELIVERED")
    case False
    with Some assms std show ?thesis by (auto simp: document_block_def)
  next
    case True
    show ?thesis
    proof (cases "map_of ships (''SHP-'' @ y)")
      case None
      with Some True assms std show ?thesis by (auto simp: document_block_def)
    next
      case (Some sh)
      with \<open>map_of tbl y = Some order\<close> True assms std show ?thesis
        by (auto simp: document_block_def seed_label_def)
    qed
  qed
qed

lemma seeded_store_invariant:
  assumes "seed_state now gen draws = Some s"
  shows "store_wf s \<and> label_invariant s"
proof -
  define tbl where "tbl = MOCK_ORDERS now gen"
  define ships where "ships = concat (map (shipment_block draws tbl) (map fst tbl))"
  define docs where "docs = concat (map (document_block tbl ships) (map fst tbl))"
  have dist: "distinct (map fst tbl)" unfolding tbl_def by (rule MOCK_ORDERS_distinct)
  have s: "s = \<lparr> orders = tbl, shipments = ships, documents = docs, localStorage = [] \<rparr>"
    using assms unfolding seed_state_closed tbl_def ships_def docs_def by simp
  have wf: "list_all (\<lambda>(k, d). doc_type d = Label \<longrightarrow> k = labelId (doc_orderId d)) docs"
    unfolding list_all_iff docs_def
  proof
    fix p assume "p \<in> set (concat (map (document_block tbl ships) (map fst tbl)))"
    then obtain y where "p \<in> set (document_block tbl ships y)" by auto
    then have "doc_type (snd p) = Label \<longrightarrow> fst p = labelId (doc_orderId (snd p))"
      using document_block_wf by blast
    then show "case p of (k, d) \<Rightarrow> doc_type d = Label \<longrightarrow> k = labelId (doc_orderId d)"
      by (cases p) simp
  qed
  have inv: "hasLabelDocument docs orderId = (order_status order \<noteq> OPEN)"
    if mem: "(orderId, order) \<in> set tbl" for orderId order
  proof -
    from mem have mem': "(orderId, order) \<in> set (MOCK_ORDERS now gen)" by (simp add: tbl_def)
    from dist mem have look: "map_of tbl orderId = Some order" by simp
    have dd: "documents_of docs orderId = map snd (document_block tbl ships orderId)"
      unfolding docs_def using dist mem by (rule documents_of_closed)
    from MOCK_ORDERS_status [OF mem']
    show ?thesis
    proof
      assume "orderId = ''ORD340001'' \<and> order = open_order now \<and> order_status order = OPEN"
      then have op: "order_status order = OPEN" by blast
      with look have "map snd (document_block tbl ships orderId)
          = map (\<lambda>ty. standard_document orderId order ty) docTypes"
        by (simp add: document_block_def)
      with op show ?thesis
        by (simp add: hasLabelDocument_documents_of dd docTypes_def)
    next
      assume "orderId \<noteq> ''ORD340001'' \<and> order_status order = DELIVERED"
      then have del: "order_status order = DELIVERED" by blast
      from MOCK_ORDERS_seed_shipment [OF mem']
      obtain sh where sh: "seed_shipment (draws orderId) orderId order = Some sh" by blast
      have "map_of ships (''SHP-'' @ orderId) \<noteq> None"
        unfolding ships_def using dist mem sh by (rule shipments_closed_lookup)
      then obtain sh' where "map_of ships (''SHP-'' @ orderId) = Some sh'" by blast
      with look del have "map snd (document_block tbl ships orderId)
          = map (\<lambda>ty. standard_document orderId order ty) docTypes
            @ [seed_label orderId order sh']"
        by (simp add: document_block_def)
      with del show ?thesis
        by (simp add: hasLabelDocument_documents_of dd seed_label_def)
    qed
  qed
  then have "label_invariant s"
    by (auto simp: label_invariant_def list_all_iff s)
  with dist wf show ?thesis by (simp add: store_wf_def s)
qed


lemma thunk_keeps_label_invariant:
  assumes wf: "store_wf s" and inv: "label_invariant s"
    and st: "status \<noteq> OPEN" and ok: "\<not> label_dispatch_throws e"
  shows "label_invariant (snd (updateOrderStatusAndGenerateLabel e mock orderId status s))
         \<and> store_wf (snd (updateOrderStatusAndGenerateLabel e mock orderId status s))"
proof -
  let ?s' = "snd (updateOrderStatusAndGenerateLabel e mock orderId status s)"
  from wf have dist: "distinct (map fst (orders s))"
    and dwf: "list_all (\<lambda>(k, d). doc_type d = Label \<longrightarrow> k = labelId (doc_orderId d)) (documents s)"
    by (simp_all add: store_wf_def)
  have docs: "documents ?s' = AList.update (labelId orderId) (shipping_label e orderId) (documents s)"
    using ok by (simp add: thunk_documents)
  have "hasLabelDocument (documents ?s') k = (order_status order' \<noteq> OPEN)"
    if mem: "(k, order') \<in> set (orders ?s')" for k order'
  proof -
    from mem have "(k, order') \<in> set (updateOrderStatus orderId status (orders s))"
      by (simp add: thunk_orders)
    from updateOrderStatus_entries [OF dist this]
    show ?thesis
    proof
      assume "k = orderId \<and> order_status order' = status"
      with st show ?thesis by (simp add: docs hasLabelDocument_after_label [OF dwf])
    next
      assume old: "k \<noteq> orderId \<and> (k, order') \<in> set (orders s)"
      with inv have "hasLabelDocument (documents s) k = (order_status order' \<noteq> OPEN)"
        by (auto simp: label_invariant_def list_all_iff)
      with old show ?thesis by (simp add: docs hasLabelDocument_after_label [OF dwf])
    qed
  qed
  then have inv': "label_invariant ?s'"
    by (auto simp: label_invariant_def list_all_iff)
  have "distinct (map fst (orders ?s'))"
    using dist by (simp add: thunk_orders updateOrderStatus_keys)
  moreover have "list_all (\<lambda>(k, d). doc_type d = Label \<longrightarrow> k = labelId (doc_orderId d))
                   (documents ?s')"
    unfolding docs list_all_iff
  proof
    fix p assume "p \<in> set (AList.update (labelId orderId) (shipping_label e orderId) (documents s))"
    with update_subset have "p = (labelId orderId, shipping_label e orderId) \<or> p \<in> set (documents s)"
      by fastforce
    then show "case p of (k, d) \<Rightarrow> doc_type d = Label \<longrightarrow> k = labelId (doc_orderId d)"
      using dwf by (auto simp: list_all_iff)
  qed
  ultimately have "store_wf ?s'" by (simp add: store_wf_def)
  with inv' show ?thesis by blast
qed


section \<open>The shipment on the transition to SHIPPED\<close>

text \<open>
  Claim C5 says that advancing an order from OPEN to SHIPPED appends one
  "Order in Transit" tracking event to the order's shipment, sets the shipment's status to
  "Order in Transit" and its progress to 60, and rewrites its lastUpdate text. At the
  concrete store the thunk resolves to \<open>true\<close> and the order becomes SHIPPED, while the
  shipment is the one that was there: status "Order Received", progress 20, two events.
\<close>

theorem shipped_shipment_counterexample:
  "map_option order_status (map_of (orders demo_state) ''ORD340001'') = Some OPEN
   \<and> fst (updateOrderStatusAndGenerateLabel demo_env demo_orders ''ORD340001'' SHIPPED demo_state)
   \<and> map_option order_status
        (map_of (orders (snd (updateOrderStatusAndGenerateLabel demo_env demo_orders
                                ''ORD340001'' SHIPPED demo_state))) ''ORD340001'') = Some SHIPPED
   \<and> map_of (shipments demo_state) ''SHP-ORD340001'' = Some demo_shipment
   \<and> map_of (shipments (snd (updateOrderStatusAndGenerateLabel demo_env demo_orders
                               ''ORD340001'' SHIPPED demo_state))) ''SHP-ORD340001''
       = Some demo_shipment
   \<and> shp_status demo_shipment = Order_Received
   \<and> progress demo_shipment = 20
   \<and> length (tracking demo_shipment) = 2"
  by (simp add: thunk_fst thunk_orders thunk_shipments updateOrderStatus_lookup demo_state_def
      demo_orders_def open_order_def demo_env_def demo_shipment_def)

text \<open>
  Claim C5, amended: the thunk never writes to the shipment table. Whatever the
  order, the target status and the outcome of the call, every shipment is left exactly
  as it was: no tracking event is appended, and status, progress and lastUpdate keep
  their values.
\<close>

theorem advance_leaves_shipments:
  "shipments (snd (updateOrderStatusAndGenerateLabel e mock orderId status s)) = shipments s"
  by (simp add: updateOrderStatusAndGenerateLabel_def Let_def dispatch_updateOrderStatus_def
      dispatch_addShippingLabel_def setItem_def)


section \<open>Requests that are not the next status\<close>

text \<open>
  Claim C3 says that a request for a status that is not the immediate successor of
  the order's status fails with InvalidTransition and changes nothing. At the concrete
  store the open order is asked to become DELIVERED: the thunk resolves to \<open>true\<close>, the
  order is DELIVERED, and a Label document for it has appeared.
\<close>

theorem skip_to_delivered_counterexample:
  "map_option order_status (map_of (orders demo_state) ''ORD340001'') = Some OPEN
   \<and> \<not> hasLabelDocument (documents demo_state) ''ORD340001''
   \<and> fst (updateOrderStatusAndGenerateLabel demo_env demo_orders ''ORD340001'' DELIVERED demo_state)
   \<and> map_option order_status
        (map_of (orders (snd (updateOrderStatusAndGenerateLabel demo_env demo_orders
                                ''ORD340001'' DELIVERED demo_state))) ''ORD340001'') = Some DELIVERED
   \<and> hasLabelDocument
        (documents (snd (updateOrderStatusAndGenerateLabel demo_env demo_orders
                           ''ORD340001'' DELIVERED demo_state))) ''ORD340001''"
  using demo_label_ids
  by (simp add: thunk_fst thunk_orders thunk_documents updateOrderStatus_lookup demo_documents
      hasLabelDocument_def)
     (simp add: demo_state_def demo_orders_def open_order_def demo_env_def)

text \<open>
  Claim C3, amended: the thunk does not compare the requested status with the order's
  status. For every order in the table and every requested status the order takes the
  requested status, the order's Label document is written unless the label dispatch
  throws, no shipment changes, and the call resolves to \<open>true\<close> exactly when no step
  throws.
\<close>

theorem advance_accepts_any_status:
  assumes "map_of (orders s) orderId = Some order"
  shows "fst (updateOrderStatusAndGenerateLabel e mock orderId status s)
           = (\<not> label_dispatch_throws e \<and> \<not> setItem_throws e)
         \<and> map_of (orders (snd (updateOrderStatusAndGenerateLabel e mock orderId status s))) orderId
             = Some (order\<lparr>order_status := status\<rparr>)
         \<and> (\<not> label_dispatch_throws e \<longrightarrow>
              map_of (documents (snd (updateOrderStatusAndGenerateLabel e mock orderId status s)))
                (labelId orderId) = Some (shipping_label e orderId))
         \<and> shipments (snd (updateOrderStatusAndGenerateLabel e mock orderId status s)) = shipments s"
  using assms
  by (simp add: thunk_fst thunk_orders thunk_documents thunk_shipments updateOrderStatus_lookup
      update_conv')

text \<open>The amended C3 at the concrete store, for the open order and the target DELIVERED.\<close>

theorem advance_accepts_any_status_witness:
  "map_of (orders demo_state) ''ORD340001'' = Some (open_order demo_now)
   \<and> fst (updateOrderStatusAndGenerateLabel demo_env demo_orders ''ORD340001'' DELIVERED demo_state)
   \<and> map_of (orders (snd (updateOrderStatusAndGenerateLabel demo_env demo_orders ''ORD340001''
                            DELIVERED demo_state))) ''ORD340001''
        = Some ((open_order demo_now)\<lparr>order_status := DELIVERED\<rparr>)"
proof -
  have h: "map_of (orders demo_state) ''ORD340001'' = Some (open_order demo_now)"
    by (simp add: demo_state_def demo_orders_def)
  show ?thesis
    using h advance_accepts_any_status [OF h, of demo_env demo_orders DELIVERED]
    by (simp add: demo_env_def)
qed


section \<open>Unknown order ids\<close>

text \<open>
  Claim C9 says that advancing an id that is not in the store fails with a NotFound
  result. At the concrete store, for the absent id ORD999999, the thunk resolves to
  \<open>true\<close>, the order table is as before, and a Label document naming the absent order
  has been stored.
\<close>

theorem unknown_order_counterexample:
  "map_of (orders demo_state) ''ORD999999'' = None
   \<and> fst (updateOrderStatusAndGenerateLabel demo_env demo_orders ''ORD999999'' SHIPPED demo_state)
   \<and> orders (snd (updateOrderStatusAndGenerateLabel demo_env demo_orders ''ORD999999'' SHIPPED
                    demo_state)) = orders demo_state
   \<and> hasLabelDocument
        (documents (snd (updateOrderStatusAndGenerateLabel demo_env demo_orders ''ORD999999''
                           SHIPPED demo_state))) ''ORD999999''"
proof -
  have h: "map_of (orders demo_state) ''ORD999999'' = None"
    by (simp add: demo_state_def demo_orders_def)
  have ids: "standard_docId ''ORD340001'' Invoice \<noteq> labelId ''ORD999999''"
    "standard_docId ''ORD340001'' Packing_List \<noteq> labelId ''ORD999999''"
    "standard_docId ''ORD340001'' Certificate_of_Origin \<noteq> labelId ''ORD999999''"
    by (simp_all add: standard_docId_def labelId_def)
  show ?thesis
    using h ids
    by (simp add: thunk_fst thunk_orders thunk_documents updateOrderStatus_absent demo_documents
        hasLabelDocument_def)
       (simp add: demo_env_def)
qed

text \<open>
  Claim C9, amended: for an id that is not in the order table the reducer's guard skips
  the write, so the order table and the shipments are unchanged; the thunk goes on, stores
  a Label document for the id unless the label dispatch throws, and resolves to \<open>true\<close>
  exactly when no step throws.
\<close>

theorem advance_unknown_order:
  assumes "map_of (orders s) orderId = None"
  shows "fst (updateOrderStatusAndGenerateLabel e mock orderId status s)
           = (\<not> label_dispatch_throws e \<and> \<not> setItem_throws e)
         \<and> orders (snd (updateOrderStatusAndGenerateLabel e mock orderId status s)) = orders s
         \<and> shipments (snd (updateOrderStatusAndGenerateLabel e mock orderId status s)) = shipments s
         \<and> (\<not> label_dispatch_throws e \<longrightarrow>
              map_of (documents (snd (updateOrderStatusAndGenerateLabel e mock orderId status s)))
                (labelId orderId) = Some (shipping_label e orderId))"
  using assms
  by (simp add: thunk_fst thunk_orders thunk_documents thunk_shipments updateOrderStatus_absent
      update_conv')

text \<open>The amended C9 at the concrete store, for the absent id ORD999999.\<close>

theorem advance_unknown_order_witness:
  "map_of (orders demo_state) ''ORD999999'' = None
   \<and> fst (updateOrderStatusAndGenerateLabel demo_env demo_orders ''ORD999999'' SHIPPED demo_state)
   \<and> map_of (documents (snd (updateOrderStatusAndGenerateLabel demo_env demo_orders ''ORD999999''
                               SHIPPED demo_state))) (labelId ''ORD999999'')
       = Some (shipping_label demo_env ''ORD999999'')"
proof -
  have h: "map_of (orders demo_state) ''ORD999999'' = None"
    by (simp add: demo_state_def demo_orders_def)
  show ?thesis
    using h advance_unknown_order [OF h, of demo_env demo_orders SHIPPED]
    by (simp add: demo_env_def)
qed


section \<open>Retrying the transition to SHIPPED\<close>

text \<open>
  Claim C4 says that a second advance to SHIPPED leaves exactly the state of the first.
  At the concrete store the retry draws a new tracking number and reads the clock again:
  the Label document carries TRK751204 after the first call and TRK318866 after the
  second, so the two states differ.
\<close>

theorem retry_counterexample:
  "map_option doc_trackingNumber
     (map_of (documents demo_shipped_state) (labelId ''ORD340001'')) = Some (Some ''TRK751204'')
   \<and> map_option doc_trackingNumber
       (map_of (documents (snd (updateOrderStatusAndGenerateLabel retry_env demo_orders
                                  ''ORD340001'' SHIPPED demo_shipped_state))) (labelId ''ORD340001''))
       = Some (Some ''TRK318866'')
   \<and> snd (updateOrderStatusAndGenerateLabel retry_env demo_orders ''ORD340001'' SHIPPED
            demo_shipped_state) \<noteq> demo_shipped_state"
proof -
  have a: "map_option doc_trackingNumber
     (map_of (documents demo_shipped_state) (labelId ''ORD340001'')) = Some (Some ''TRK751204'')"
    by (simp add: demo_shipped_state_def thunk_documents update_conv' demo_tracking_numbers)
       (simp add: demo_env_def)
  have b: "map_option doc_trackingNumber
       (map_of (documents (snd (updateOrderStatusAndGenerateLabel retry_env demo_orders
                                  ''ORD340001'' SHIPPED demo_shipped_state))) (labelId ''ORD340001''))
       = Some (Some ''TRK318866'')"
    by (simp add: thunk_documents update_conv' demo_tracking_numbers) (simp add: retry_env_def)
  from a b have "snd (updateOrderStatusAndGenerateLabel retry_env demo_orders ''ORD340001'' SHIPPED
            demo_shipped_state) \<noteq> demo_shipped_state"
    by auto
  with a b show ?thesis by blast
qed

text \<open>
  Claim C4, amended: a retry that completes leaves exactly the state of a single call
  made with the retry's clock reading and draw. It adds no document (the document ids
  after the retry are those after the first call, when the first call stored its label),
  leaves every shipment as it was before the first call, and leaves the order table as
  the first call left it; only the Label's date and tracking number are rewritten.
\<close>

theorem retry_overwrites:
  assumes "\<not> label_dispatch_throws e2" and "\<not> setItem_throws e2"
  shows "updateOrderStatusAndGenerateLabel e2 mock orderId status
           (snd (updateOrderStatusAndGenerateLabel e1 mock orderId status s))
         = updateOrderStatusAndGenerateLabel e2 mock orderId status s
         \<and> (\<not> label_dispatch_throws e1 \<longrightarrow>
              map fst (documents (snd (updateOrderStatusAndGenerateLabel e2 mock orderId status
                         (snd (updateOrderStatusAndGenerateLabel e1 mock orderId status s)))))
              = map fst (documents (snd (updateOrderStatusAndGenerateLabel e1 mock orderId status s))))
         \<and> shipments (snd (updateOrderStatusAndGenerateLabel e2 mock orderId status
                        (snd (updateOrderStatusAndGenerateLabel e1 mock orderId status s))))
             = shipments s
         \<and> orders (snd (updateOrderStatusAndGenerateLabel e2 mock orderId status
                        (snd (updateOrderStatusAndGenerateLabel e1 mock orderId status s))))
             = orders (snd (updateOrderStatusAndGenerateLabel e1 mock orderId status s))"
proof -
  let ?once = "updateOrderStatusAndGenerateLabel e1 mock orderId status s"
  let ?twice = "updateOrderStatusAndGenerateLabel e2 mock orderId status (snd ?once)"
  have "fst ?twice = fst (updateOrderStatusAndGenerateLabel e2 mock orderId status s)"
    by (simp add: thunk_fst)
  moreover have "snd ?twice = snd (updateOrderStatusAndGenerateLabel e2 mock orderId status s)"
    using assms
    by (intro app_state_eqI)
       (simp_all add: thunk_orders thunk_shipments thunk_documents thunk_localStorage
          updateOrderStatus_twice)
  ultimately have same: "?twice = updateOrderStatusAndGenerateLabel e2 mock orderId status s"
    by (rule prod_eqI)
  have keys: "\<not> label_dispatch_throws e1 \<longrightarrow>
      map fst (documents (snd ?twice)) = map fst (documents (snd ?once))"
    using assms by (simp add: thunk_documents update_keys)
  have ships: "shipments (snd ?twice) = shipments s"
    by (simp add: thunk_shipments)
  have ords: "orders (snd ?twice) = orders (snd ?once)"
    by (simp add: thunk_orders updateOrderStatus_twice)
  from same keys ships ords show ?thesis by blast
qed

text \<open>The amended C4 at the concrete store: the retry of the advance of the open order.\<close>

theorem retry_overwrites_witness:
  "\<not> label_dispatch_throws retry_env \<and> \<not> setItem_throws retry_env
   \<and> updateOrderStatusAndGenerateLabel retry_env demo_orders ''ORD340001'' SHIPPED demo_shipped_state
       = updateOrderStatusAndGenerateLabel retry_env demo_orders ''ORD340001'' SHIPPED demo_state
   \<and> map fst (documents (snd (updateOrderStatusAndGenerateLabel retry_env demo_orders ''ORD340001''
                                 SHIPPED demo_shipped_state)))
       = map fst (documents demo_shipped_state)"
proof -
  have h1: "\<not> label_dispatch_throws retry_env" and h2: "\<not> setItem_throws retry_env"
    by (simp_all add: retry_env_def)
  have h3: "\<not> label_dispatch_throws demo_env" by (simp add: demo_env_def)
  show ?thesis
    using h1 h2 h3 retry_overwrites [OF h1 h2, of demo_orders "''ORD340001''" SHIPPED demo_env demo_state]
    unfolding demo_shipped_state_def by blast
qed


section \<open>The transition to DELIVERED\<close>

text \<open>
  Claim C8 says that advancing from SHIPPED to DELIVERED leaves the documents unchanged,
  appends a "Reached Destination" event, and sets progress to 100. At the concrete
  store, after the SHIPPED step, the DELIVERED step resolves to \<open>true\<close>, the documents
  differ from those after the SHIPPED step (the Label is rewritten), and the shipment still
  has status "Order Received", progress 20 and two events.
\<close>

theorem delivered_step_counterexample:
  "map_option order_status (map_of (orders demo_shipped_state) ''ORD340001'') = Some SHIPPED
   \<and> fst (updateOrderStatusAndGenerateLabel retry_env demo_orders ''ORD340001'' DELIVERED
            demo_shipped_state)
   \<and> documents (snd (updateOrderStatusAndGenerateLabel retry_env demo_orders ''ORD340001''
                       DELIVERED demo_shipped_state)) \<noteq> documents demo_shipped_state
   \<and> map_of (shipments (snd (updateOrderStatusAndGenerateLabel retry_env demo_orders ''ORD340001''
                               DELIVERED demo_shipped_state))) ''SHP-ORD340001''
       = Some demo_shipment
   \<and> shp_status demo_shipment = Order_Received
   \<and> progress demo_shipment = 20
   \<and> length (tracking demo_shipment) = 2"
proof -
  let ?s2 = "snd (updateOrderStatusAndGenerateLabel retry_env demo_orders ''ORD340001''
                       DELIVERED demo_shipped_state)"
  have a: "map_option doc_trackingNumber
     (map_of (documents demo_shipped_state) (labelId ''ORD340001'')) = Some (Some ''TRK751204'')"
    by (simp add: demo_shipped_state_def thunk_documents update_conv' demo_tracking_numbers)
       (simp add: demo_env_def)
  have b: "map_option doc_trackingNumber (map_of (documents ?s2) (labelId ''ORD340001''))
       = Some (Some ''TRK318866'')"
    by (simp add: thunk_documents update_conv' demo_tracking_numbers) (simp add: retry_env_def)
  from a b have docs: "documents ?s2 \<noteq> documents demo_shipped_state" by auto
  have st: "map_option order_status (map_of (orders demo_shipped_state) ''ORD340001'') = Some SHIPPED"
    by (simp add: demo_shipped_state_def thunk_orders updateOrderStatus_lookup demo_state_def
        demo_orders_def)
  have ok: "fst (updateOrderStatusAndGenerateLabel retry_env demo_orders ''ORD340001'' DELIVERED
            demo_shipped_state)"
    by (simp add: thunk_fst retry_env_def)
  have sh: "map_of (shipments ?s2) ''SHP-ORD340001'' = Some demo_shipment"
    by (simp add: thunk_shipments demo_shipped_state_def demo_state_def)
  have "shp_status demo_shipment = Order_Received \<and> progress demo_shipment = 20
      \<and> length (tracking demo_shipment) = 2"
    by (simp add: demo_shipment_def)
  with st ok docs sh show ?thesis by blast
qed

text \<open>
  Claim C8, amended: for an order whose Label document is stored, advancing to
  DELIVERED sets the order's status to DELIVERED and creates no document: the document
  ids, and so the document count, are unchanged, and every document other than the
  order's Label is unchanged. The Label is rewritten with the clock reading and draw of
  this call unless the label dispatch throws. No shipment changes: no event is appended
  and progress and lastUpdate keep their values.
\<close>

theorem delivered_step:
  assumes "map_of (orders s) orderId = Some order"
    and "labelId orderId \<in> set (map fst (documents s))"
  shows "map_of (orders (snd (updateOrderStatusAndGenerateLabel e mock orderId DELIVERED s))) orderId
           = Some (order\<lparr>order_status := DELIVERED\<rparr>)
         \<and> map fst (documents (snd (updateOrderStatusAndGenerateLabel e mock orderId DELIVERED s)))
             = map fst (documents s)
         \<and> (\<forall>k. k \<noteq> labelId orderId \<longrightarrow>
              map_of (documents (snd (updateOrderStatusAndGenerateLabel e mock orderId DELIVERED s))) k
                = map_of (documents s) k)
         \<and> (\<not> label_dispatch_throws e \<longrightarrow>
              map_of (documents (snd (updateOrderStatusAndGenerateLabel e mock orderId DELIVERED s)))
                (labelId orderId) = Some (shipping_label e orderId))
         \<and> shipments (snd (updateOrderStatusAndGenerateLabel e mock orderId DELIVERED s)) = shipments s"
  using assms
  by (simp add: thunk_orders thunk_documents thunk_shipments updateOrderStatus_lookup update_keys
      update_conv')

text \<open>The amended C8 at the concrete store after its SHIPPED step.\<close>

theorem delivered_step_witness:
  "map_of (orders demo_shipped_state) ''ORD340001''
     = Some ((open_order demo_now)\<lparr>order_status := SHIPPED\<rparr>)
   \<and> labelId ''ORD340001'' \<in> set (map fst (documents demo_shipped_state))
   \<and> length (documents (snd (updateOrderStatusAndGenerateLabel retry_env demo_orders ''ORD340001''
                               DELIVERED demo_shipped_state))) = 4
   \<and> length (documents demo_shipped_state) = 4
   \<and> map_of (orders (snd (updateOrderStatusAndGenerateLabel retry_env demo_orders ''ORD340001''
                            DELIVERED demo_shipped_state))) ''ORD340001''
       = Some ((open_order demo_now)\<lparr>order_status := DELIVERED\<rparr>)"
proof -
  have h1: "map_of (orders demo_shipped_state) ''ORD340001''
     = Some ((open_order demo_now)\<lparr>order_status := SHIPPED\<rparr>)"
    by (simp add: demo_shipped_state_def thunk_orders updateOrderStatus_lookup demo_state_def
        demo_orders_def)
  have h2: "labelId ''ORD340001'' \<in> set (map fst (documents demo_shipped_state))"
    by (simp add: demo_shipped_documents)
  have len: "length (documents demo_shipped_state) = 4"
    by (simp add: demo_shipped_documents demo_documents)
  from delivered_step [OF h1 h2, of retry_env demo_orders]
  have keys: "map fst (documents (snd (updateOrderStatusAndGenerateLabel retry_env demo_orders
       ''ORD340001'' DELIVERED demo_shipped_state))) = map fst (documents demo_shipped_state)"
    and st: "map_of (orders (snd (updateOrderStatusAndGenerateLabel retry_env demo_orders ''ORD340001''
                            DELIVERED demo_shipped_state))) ''ORD340001''
       = Some ((open_order demo_now)\<lparr>order_status := SHIPPED, order_status := DELIVERED\<rparr>)"
    by blast+
  from keys have "length (documents (snd (updateOrderStatusAndGenerateLabel retry_env demo_orders
       ''ORD340001'' DELIVERED demo_shipped_state))) = length (documents demo_shipped_state)"
    by (metis length_map)
  with h1 h2 len st show ?thesis by simp
qed



section \<open>The Label document and the order status\<close>

text \<open>
  Claim C2 says that at every observable state an order has a Label document exactly
  when its status is not OPEN. The thunk makes two dispatches, and the store notifies its
  subscribers after each. At the concrete store the equivalence holds before the call;
  after the status dispatch the open order is SHIPPED and has no Label document, so the
  equivalence fails at the second of the observable states.
\<close>

theorem label_between_dispatches_counterexample:
  "label_invariant demo_state
   \<and> \<not> list_all label_invariant (observable_states demo_env ''ORD340001'' SHIPPED demo_state)
   \<and> map_option order_status
        (map_of (orders (dispatch_updateOrderStatus ''ORD340001'' SHIPPED demo_state)) ''ORD340001'')
       = Some SHIPPED
   \<and> \<not> hasLabelDocument (documents (dispatch_updateOrderStatus ''ORD340001'' SHIPPED demo_state))
         ''ORD340001''"
proof -
  let ?s1 = "dispatch_updateOrderStatus ''ORD340001'' SHIPPED demo_state"
  have o: "orders ?s1 = [(''ORD340001'', (open_order demo_now)\<lparr>order_status := SHIPPED\<rparr>)]"
    by (simp add: dispatch_updateOrderStatus_def updateOrderStatus_def demo_state_def demo_orders_def)
  have d: "documents ?s1 = documents demo_state"
    by (simp add: dispatch_updateOrderStatus_def)
  have nl: "\<not> hasLabelDocument (documents ?s1) ''ORD340001''"
    by (simp add: d hasLabelDocument_def demo_documents)
  have ninv: "\<not> label_invariant ?s1"
    using nl by (simp add: label_invariant_def o)
  have "\<not> list_all label_invariant (observable_states demo_env ''ORD340001'' SHIPPED demo_state)"
    using ninv by (simp add: observable_states_def Let_def demo_env_def)
  with demo_inv nl o show ?thesis by simp
qed

text \<open>
  Claim C2, amended: the equivalence holds at start-up and is kept by every call as a
  whole. The seeded store is well formed and every order in it has a Label document
  exactly when its status is not OPEN; and on a well-formed store with that property, a
  call with a target status other than OPEN whose label dispatch does not throw leaves a
  well-formed store with the same property. Between the two dispatches of a call the
  property does not hold.
\<close>

theorem advance_keeps_label_invariant:
  "(seed_state now gen draws = Some init \<longrightarrow> store_wf init \<and> label_invariant init)
   \<and> (store_wf s \<and> label_invariant s \<and> status \<noteq> OPEN \<and> \<not> label_dispatch_throws e \<longrightarrow>
        label_invariant (snd (updateOrderStatusAndGenerateLabel e mock orderId status s))
        \<and> store_wf (snd (updateOrderStatusAndGenerateLabel e mock orderId status s)))"
  using seeded_store_invariant [of now gen draws init]
    thunk_keeps_label_invariant [of s status e mock orderId]
  by blast

text \<open>The amended C2 at the concrete store, for the advance of the open order to SHIPPED.\<close>

theorem advance_keeps_label_invariant_witness:
  "store_wf demo_state \<and> label_invariant demo_state \<and> SHIPPED \<noteq> OPEN
   \<and> \<not> label_dispatch_throws demo_env
   \<and> label_invariant demo_shipped_state \<and> store_wf demo_shipped_state
   \<and> (\<exists>init. seed_state demo_now demo_gen (\<lambda>_. demo_draws) = Some init
             \<and> store_wf init \<and> label_invariant init)"
proof -
  have ok: "\<not> label_dispatch_throws demo_env" by (simp add: demo_env_def)
  have st: "SHIPPED \<noteq> OPEN" by simp
  obtain seeded where seeded: "seed_state demo_now demo_gen (\<lambda>_. demo_draws) = Some seeded"
    by (simp add: seed_state_closed)
  note t = advance_keeps_label_invariant [where s = demo_state and status = SHIPPED
      and e = demo_env and mock = demo_orders and orderId = "''ORD340001''"
      and now = demo_now and gen = demo_gen and draws = "\<lambda>_. demo_draws" and init = seeded]
  from t [THEN conjunct2] demo_wf demo_inv st ok
  have step: "label_invariant demo_shipped_state \<and> store_wf demo_shipped_state"
    unfolding demo_shipped_state_def by blast
  from t [THEN conjunct1] seeded have "store_wf seeded \<and> label_invariant seeded" by blast
  with seeded have "\<exists>init. seed_state demo_now demo_gen (\<lambda>_. demo_draws) = Some init
             \<and> store_wf init \<and> label_invariant init" by blast
  with demo_wf demo_inv st ok step show ?thesis by blast
qed

section \<open>Failure of a step\<close>

text \<open>
  Claim C1 says that the transition to SHIPPED is all-or-nothing: when a step fails,
  the order's status is not left advanced. The thunk writes the status first and its
  \<open>catch\<close> undoes nothing. At the concrete store, when \<open>localStorage.setItem\<close> throws,
  the call resolves to \<open>false\<close> while the order is SHIPPED and its Label document is
  stored; when the label dispatch throws, the call resolves to \<open>false\<close> while the order
  is SHIPPED and has no Label document.
\<close>

theorem failed_advance_leaves_order_shipped:
  "map_option order_status (map_of (orders demo_state) ''ORD340001'') = Some OPEN
   \<and> \<not> fst (updateOrderStatusAndGenerateLabel storage_full_env demo_orders ''ORD340001'' SHIPPED
              demo_state)
   \<and> map_option order_status
        (map_of (orders (snd (updateOrderStatusAndGenerateLabel storage_full_env demo_orders
                                ''ORD340001'' SHIPPED demo_state))) ''ORD340001'') = Some SHIPPED
   \<and> hasLabelDocument
        (documents (snd (updateOrderStatusAndGenerateLabel storage_full_env demo_orders
                           ''ORD340001'' SHIPPED demo_state))) ''ORD340001''
   \<and> \<not> fst (updateOrderStatusAndGenerateLabel label_failure_env demo_orders ''ORD340001'' SHIPPED
              demo_state)
   \<and> map_option order_status
        (map_of (orders (snd (updateOrderStatusAndGenerateLabel label_failure_env demo_orders
                                ''ORD340001'' SHIPPED demo_state))) ''ORD340001'') = Some SHIPPED
   \<and> \<not> hasLabelDocument
        (documents (snd (updateOrderStatusAndGenerateLabel label_failure_env demo_orders
                           ''ORD340001'' SHIPPED demo_state))) ''ORD340001''"
  using demo_label_ids
  by (simp add: thunk_fst thunk_orders thunk_documents updateOrderStatus_lookup demo_documents
      hasLabelDocument_def storage_full_env_def label_failure_env_def)
     (simp add: demo_state_def demo_orders_def open_order_def demo_env_def)


section \<open>Carrier and tracking number of the Label\<close>

text \<open>
  Claim C6 says that the Label created on the transition to SHIPPED carries the carrier
  and tracking number of the order's shipment. At the concrete store the shipment has
  carrier DHL Express and tracking number TRK482913, before and after the call; the
  Label the thunk stores has carrier FedEx and tracking number TRK751204. The label of
  the seed loop, built for the same order and shipment, copies the shipment's two fields.
\<close>

theorem thunk_label_ignores_shipment:
  "map_of (shipments demo_state) ''SHP-ORD340001'' = Some demo_shipment
   \<and> map_of (shipments demo_shipped_state) ''SHP-ORD340001'' = Some demo_shipment
   \<and> shp_carrier demo_shipment = ''DHL Express''
   \<and> tracking_number demo_shipment = ''TRK482913''
   \<and> map_of (documents demo_shipped_state) (labelId ''ORD340001'')
       = Some (shipping_label demo_env ''ORD340001'')
   \<and> doc_carrier (shipping_label demo_env ''ORD340001'') = Some ''FedEx''
   \<and> doc_trackingNumber (shipping_label demo_env ''ORD340001'') = Some ''TRK751204''
   \<and> doc_carrier (seed_label ''ORD340001'' (open_order demo_now) demo_shipment)
       = Some ''DHL Express''
   \<and> doc_trackingNumber (seed_label ''ORD340001'' (open_order demo_now) demo_shipment)
       = Some ''TRK482913''"
proof -
  have a: "map_of (shipments demo_state) ''SHP-ORD340001'' = Some demo_shipment"
    by (simp add: demo_state_def)
  have b: "map_of (shipments demo_shipped_state) ''SHP-ORD340001'' = Some demo_shipment"
    by (simp add: demo_shipped_state_def thunk_shipments a)
  have c: "shp_carrier demo_shipment = ''DHL Express''"
    "tracking_number demo_shipment = ''TRK482913''"
    by (simp_all add: demo_shipment_def)
  have d: "map_of (documents demo_shipped_state) (labelId ''ORD340001'')
       = Some (shipping_label demo_env ''ORD340001'')"
    using demo_label_ids by (simp add: demo_shipped_documents demo_documents)
  have e: "doc_carrier (shipping_label demo_env ''ORD340001'') = Some ''FedEx''"
    "doc_trackingNumber (shipping_label demo_env ''ORD340001'') = Some ''TRK751204''"
    by (simp_all add: thunk_carrier_def demo_tracking_numbers)
  have f: "doc_carrier (seed_label ''ORD340001'' (open_order demo_now) demo_shipment)
       = Some ''DHL Express''"
    "doc_trackingNumber (seed_label ''ORD340001'' (open_order demo_now) demo_shipment)
       = Some ''TRK482913''"
    by (simp_all add: seed_label_def c)
  from a b c d e f show ?thesis by simp
qed



section \<open>The seeded open order\<close>

text \<open>
  Claim C7: for every freshly seeded order with status OPEN, the store right after
  seeding holds exactly three documents for the order (Invoice, Packing List,
  Certificate of Origin, each Final and dated at the order's placement time), no Label
  document, and exactly one shipment, with status "Order Received", progress 20 and two
  tracking events. Seeding returns a store for every clock reading and all draws, and
  the property holds for every order of that store whose status is OPEN.
\<close>

theorem seed_open_order:
  "\<exists>s. seed_state now gen draws = Some s
       \<and> (\<forall>(orderId, order) \<in> set (orders s). order_status order = OPEN \<longrightarrow>
            length (documents_of (documents s) orderId) = 3
            \<and> map doc_type (documents_of (documents s) orderId)
                = [Invoice, Packing_List, Certificate_of_Origin]
            \<and> list_all (\<lambda>d. doc_status d = Final \<and> doc_date d = order_placed_timestamp order)
                 (documents_of (documents s) orderId)
            \<and> \<not> hasLabelDocument (documents s) orderId
            \<and> (\<exists>sh. shipments_of (shipments s) orderId = [sh]
                     \<and> shp_status sh = Order_Received \<and> progress sh = 20
                     \<and> length (tracking sh) = 2))"
proof -
  define tbl where "tbl = MOCK_ORDERS now gen"
  define ships where "ships = concat (map (shipment_block draws tbl) (map fst tbl))"
  define docs where "docs = concat (map (document_block tbl ships) (map fst tbl))"
  define s where "s = \<lparr> orders = tbl, shipments = ships, documents = docs, localStorage = [] \<rparr>"
  have dist: "distinct (map fst tbl)" unfolding tbl_def by (rule MOCK_ORDERS_distinct)
  have seeded: "seed_state now gen draws = Some s"
    unfolding s_def docs_def ships_def tbl_def by (rule seed_state_closed)
  have "length (documents_of docs orderId) = 3
        \<and> map doc_type (documents_of docs orderId) = [Invoice, Packing_List, Certificate_of_Origin]
        \<and> list_all (\<lambda>d. doc_status d = Final \<and> doc_date d = order_placed_timestamp order)
             (documents_of docs orderId)
        \<and> \<not> hasLabelDocument docs orderId
        \<and> (\<exists>sh. shipments_of ships orderId = [sh]
                 \<and> shp_status sh = Order_Received \<and> progress sh = 20
                 \<and> length (tracking sh) = 2)"
    if mem: "(orderId, order) \<in> set tbl" and op: "order_status order = OPEN" for orderId order
  proof -
    from mem have mem': "(orderId, order) \<in> set (MOCK_ORDERS now gen)" by (simp add: tbl_def)
    from MOCK_ORDERS_status [OF mem'] op have oid: "orderId = ''ORD340001''" by auto
    from dist mem have look: "map_of tbl orderId = Some order" by simp
    from look op have blk: "map snd (document_block tbl ships orderId)
        = [standard_document orderId order Invoice, standard_document orderId order Packing_List,
           standard_document orderId order Certificate_of_Origin]"
      by (simp add: document_block_def docTypes_def)
    have dd: "documents_of docs orderId
        = [standard_document orderId order Invoice, standard_document orderId order Packing_List,
           standard_document orderId order Certificate_of_Origin]"
      unfolding docs_def using documents_of_closed [OF dist mem, of ships] blk by simp
    from MOCK_ORDERS_seed_shipment [OF mem']
    obtain sh where sh: "seed_shipment (draws orderId) orderId order = Some sh" by blast
    have sl: "shipments_of ships orderId = [sh]"
      unfolding ships_def using dist mem sh by (rule shipments_of_closed)
    have "shp_status sh = Order_Received \<and> progress sh = 20 \<and> length (tracking sh) = 2"
      using seed_shipment_fields [OF sh] oid by (simp add: seed_status_def seed_progress_def)
    with sl have "\<exists>sh. shipments_of ships orderId = [sh]
                 \<and> shp_status sh = Order_Received \<and> progress sh = 20
                 \<and> length (tracking sh) = 2" by blast
    then show ?thesis
      by (simp add: dd hasLabelDocument_documents_of)
  qed
  then have "\<forall>(orderId, order) \<in> set (orders s). order_status order = OPEN \<longrightarrow>
            length (documents_of (documents s) orderId) = 3
            \<and> map doc_type (documents_of (documents s) orderId)
                = [Invoice, Packing_List, Certificate_of_Origin]
            \<and> list_all (\<lambda>d. doc_status d = Final \<and> doc_date d = order_placed_timestamp order)
                 (documents_of (documents s) orderId)
            \<and> \<not> hasLabelDocument (documents s) orderId
            \<and> (\<exists>sh. shipments_of (shipments s) orderId = [sh]
                     \<and> shp_status sh = Order_Received \<and> progress sh = 20
                     \<and> length (tracking sh) = 2)"
    by (auto simp: s_def)
  with seeded show ?thesis by blast
qed


text \<open>Claim C7 at fixed draws, for the open order ORD340001.\<close>

theorem seed_open_order_witness:
  "\<exists>s. seed_state demo_now demo_gen (\<lambda>_. demo_draws) = Some s
       \<and> (''ORD340001'', open_order demo_now) \<in> set (orders s)
       \<and> order_status (open_order demo_now) = OPEN
       \<and> length (documents_of (documents s) ''ORD340001'') = 3
       \<and> map doc_type (documents_of (documents s) ''ORD340001'')
           = [Invoice, Packing_List, Certificate_of_Origin]
       \<and> \<not> hasLabelDocument (documents s) ''ORD340001''
       \<and> (\<exists>sh. shipments_of (shipments s) ''ORD340001'' = [sh]
                \<and> shp_status sh = Order_Received \<and> progress sh = 20
                \<and> length (tracking sh) = 2)"
proof -
  let ?Q = "\<lambda>s orderId order.
            length (documents_of (documents s) orderId) = 3
            \<and> map doc_type (documents_of (documents s) orderId)
                = [Invoice, Packing_List, Certificate_of_Origin]
            \<and> list_all (\<lambda>d. doc_status d = Final \<and> doc_date d = order_placed_timestamp order)
                 (documents_of (documents s) orderId)
            \<and> \<not> hasLabelDocument (documents s) orderId
            \<and> (\<exists>sh. shipments_of (shipments s) orderId = [sh]
                     \<and> shp_status sh = Order_Received \<and> progress sh = 20
                     \<and> length (tracking sh) = 2)"
  from seed_open_order [of demo_now demo_gen "\<lambda>_. demo_draws"]
  obtain s where both: "seed_state demo_now demo_gen (\<lambda>_. demo_draws) = Some s
       \<and> (\<forall>(orderId, order) \<in> set (orders s). order_status order = OPEN \<longrightarrow> ?Q s orderId order)"
    ..
  from both have seeded: "seed_state demo_now demo_gen (\<lambda>_. demo_draws) = Some s"
    by (rule conjunct1)
  from both have all: "\<forall>(orderId, order) \<in> set (orders s).
      order_status order = OPEN \<longrightarrow> ?Q s orderId order"
    by (rule conjunct2)
  from seeded have "orders s = MOCK_ORDERS demo_now demo_gen"
    unfolding seed_state_closed by auto
  then have mem: "(''ORD340001'', open_order demo_now) \<in> set (orders s)"
    by (simp add: MOCK_ORDERS_closed)
  have op: "order_status (open_order demo_now) = OPEN"
    by (simp add: open_order_def)
  from all mem have "case (''ORD340001'', open_order demo_now) of
      (orderId, order) \<Rightarrow> order_status order = OPEN \<longrightarrow> ?Q s orderId order"
    by (rule bspec)
  then have "order_status (open_order demo_now) = OPEN
      \<longrightarrow> ?Q s ''ORD340001'' (open_order demo_now)"
    by (simp only: prod.case)
  from this op have q: "?Q s ''ORD340001'' (open_order demo_now)" by (rule mp)
  note q1 = q [THEN conjunct1]
  note q2 = q [THEN conjunct2, THEN conjunct1]
  note q3 = q [THEN conjunct2, THEN conjunct2, THEN conjunct2, THEN conjunct1]
  note q4 = q [THEN conjunct2, THEN conjunct2, THEN conjunct2, THEN conjunct2]
  show ?thesis
    by (intro exI [of _ s] conjI seeded mem op q1 q2 q3 q4)
qed


section \<open>Reproducibility\<close>





end
